theory Spec2Isabelle
  imports Complex_Main "HOL-Library.AList"
begin

section \<open>Data model of \<open>utils.py\<close>\<close>

text \<open>
  The module drives PyTorch objects. Their numbers are modelled as real numbers: a Python
  float and a tensor entry are a \<^typ>\<open>real\<close>, so rounding, overflow and NaN are outside
  the model. Python integers are \<^typ>\<open>int\<close>, counts and sizes are \<^typ>\<open>nat\<close>.
  Every exception the module can raise is a value of \<open>error\<close>; a function that can
  raise returns \<open>error + 'a\<close> with \<open>Inl\<close> for the exception.
\<close>

datatype error =
    StopIteration
  | NameError string
  | ZeroDivisionError
  | KeyError
  | ValueError
  | RuntimeError

datatype device = CPU | CUDA

text \<open>
  A tensor is its device and its entries along dimension 0, so \<open>t.size(0)\<close> is the number
  of rows. \<open>t.to(device)\<close> returns a tensor on the device and leaves \<open>t\<close> as it is.
\<close>

record 'a tensor =
  device :: device
  rows :: "'a list"

definition size0 :: "('a, 'z) tensor_scheme \<Rightarrow> nat" where
  "size0 t = length (rows t)"

definition tensor_to :: "'a tensor \<Rightarrow> device \<Rightarrow> 'a tensor" where
  "tensor_to t d = t\<lparr>device := d\<rparr>"

text \<open>A parameter is a flattened tensor of reals with its \<open>.grad\<close>.\<close>

record parameter = "real tensor" +
  grad :: "real list option"

text \<open>
  A module is identified by a reference: the class hierarchy it belongs to and an
  address. The class of an object never changes, so it is part of the reference.
  \<open>isbatchnorm\<close> accepts the two batch-normalization hierarchies.
\<close>

datatype module_class = Torch_BatchNorm | Curves_BatchNorm | Other_Module

datatype module_ref = Module (class_of: module_class) (address: nat)

definition isbatchnorm :: "module_ref \<Rightarrow> bool" where
  "isbatchnorm m = (class_of m = Torch_BatchNorm \<or> class_of m = Curves_BatchNorm)"

text \<open>
  The mutable attributes of a module. \<open>momentum\<close> and \<open>running_stats\<close> are read and
  written on batch-normalization modules only; PyTorch allows \<open>momentum = None\<close>.
  The running statistics are opaque (\<^typ>\<open>'s\<close>).
\<close>

record 's module =
  training :: bool
  momentum :: "real option"
  running_stats :: 's

text \<open>The mutable state of a model: its parameters and the attributes of its modules.\<close>

record 's model_state =
  parameters :: "parameter list"
  attrs :: "module_ref \<Rightarrow> 's module"

text \<open>
  The fixed part of a model: \<open>modules\<close> lists the references \<open>model.apply\<close> visits, in its
  order (the submodules, then the model itself; a shared module occurs once per visit);
  \<open>forward\<close> is the forward pass \<open>model(input, **kwargs)\<close>, which reads the state, may raise,
  and returns the state it leaves and the per-class scores of every sample;
  \<open>reset_running_stats\<close> is the method of that name of a batch-normalization module;
  \<open>backward\<close> is \<open>loss.backward()\<close> for a loss of the given value.
  All three are primitives of PyTorch and are parameters here.
\<close>

record ('s, 'x) net =
  modules :: "module_ref list"
  forward :: "'s model_state \<Rightarrow> 'x tensor \<Rightarrow> error + 's model_state \<times> real list tensor"
  reset_running_stats :: "'s \<Rightarrow> 's"
  backward :: "real \<Rightarrow> 's model_state \<Rightarrow> error + 's model_state"

text \<open>
  A loader is the finite sequence of batches it yields, each an input tensor and a tensor
  of target classes, and the size of its dataset (\<open>len(loader.dataset)\<close>);
  \<open>len(loader)\<close> is the number of batches.
\<close>

record 'x loader =
  batches :: "('x tensor \<times> int tensor) list"
  dataset_len :: nat

text \<open>
  Every call of the forward pass is recorded with the state and the input it was given:
  the log is how the model observes what a forward pass could see.
\<close>

type_synonym ('s, 'x) forward_log = "('s model_state \<times> 'x tensor) list"

definition call_model ::
  "('s, 'x) net \<Rightarrow> 'x tensor \<Rightarrow> 's model_state \<times> ('s, 'x) forward_log
   \<Rightarrow> error + ('s model_state \<times> ('s, 'x) forward_log) \<times> real list tensor" where
  "call_model net x w =
     (case forward net (fst w) x of
        Inl e \<Rightarrow> Inl e
      | Inr (st', output) \<Rightarrow> Inr ((st', snd w @ [(fst w, x)]), output))"

text \<open>\<open>next(model.parameters())\<close>: the first parameter, or \<open>StopIteration\<close>.\<close>

definition next_parameter :: "'s model_state \<Rightarrow> error + parameter" where
  "next_parameter st = (case parameters st of [] \<Rightarrow> Inl StopIteration | p # _ \<Rightarrow> Inr p)"

text \<open>\<open>model.train()\<close> and \<open>model.eval()\<close> set the flag of every module of the model.\<close>

definition set_mode :: "('s, 'x) net \<Rightarrow> bool \<Rightarrow> 's model_state \<Rightarrow> 's model_state" where
  "set_mode net mode st =
     st\<lparr>attrs := (\<lambda>m. if m \<in> set (modules net) then (attrs st m)\<lparr>training := mode\<rparr>
                        else attrs st m)\<rparr>"

text \<open>\<open>model.apply(fn)\<close>: \<open>fn\<close> on every module in order, stopping at the first raise.\<close>

fun module_apply ::
  "(module_ref \<Rightarrow> 'a \<Rightarrow> error + 'a) \<Rightarrow> module_ref list \<Rightarrow> 'a \<Rightarrow> error + 'a" where
  "module_apply fn [] a = Inr a"
| "module_apply fn (m # ms) a =
     (case fn m a of Inl e \<Rightarrow> Inl e | Inr a' \<Rightarrow> module_apply fn ms a')"

section \<open>Batch-normalization recalibration\<close>

text \<open>\<open>_check_bn(module, flag)\<close>, with the one-element list \<open>flag\<close> as a boolean.\<close>

definition check_bn_module :: "module_ref \<Rightarrow> bool \<Rightarrow> error + bool" where
  "check_bn_module m flag = Inr (if isbatchnorm m then True else flag)"

definition check_bn :: "('s, 'x) net \<Rightarrow> error + bool" where
  "check_bn net = module_apply check_bn_module (modules net) False"

definition reset_bn :: "('s, 'x) net \<Rightarrow> module_ref \<Rightarrow> 's model_state \<Rightarrow> error + 's model_state" where
  "reset_bn net m st =
     Inr (if isbatchnorm m
          then st\<lparr>attrs := (attrs st)
                 (m := (attrs st m)\<lparr>running_stats :=
                          reset_running_stats net (running_stats (attrs st m))\<rparr>)\<rparr>
          else st)"

text \<open>
  The dictionary \<open>momenta\<close>, keyed by module identity, is an association list in
  insertion order. \<open>_get_momenta\<close> reads the module in the state \<open>st\<close>.
\<close>

type_synonym momenta = "(module_ref \<times> real option) list"

definition get_momenta :: "'s model_state \<Rightarrow> module_ref \<Rightarrow> momenta \<Rightarrow> error + momenta" where
  "get_momenta st m momenta =
     Inr (if isbatchnorm m then AList.update m (momentum (attrs st m)) momenta else momenta)"

definition set_momentum :: "module_ref \<Rightarrow> real option \<Rightarrow> 's model_state \<Rightarrow> 's model_state" where
  "set_momentum m v st = st\<lparr>attrs := (attrs st)(m := (attrs st m)\<lparr>momentum := v\<rparr>)\<rparr>"

definition set_momenta :: "momenta \<Rightarrow> module_ref \<Rightarrow> 's model_state \<Rightarrow> error + 's model_state" where
  "set_momenta momenta m st =
     (if isbatchnorm m
      then (case map_of momenta m of
              None \<Rightarrow> Inl KeyError
            | Some v \<Rightarrow> Inr (set_momentum m v st))
      else Inr st)"

text \<open>
  The replay loop of \<open>update_bn\<close>. The result of \<open>sample_input.to(device)\<close> is dropped by
  the source; the division \<open>batch_size / (num_samples + batch_size)\<close> of two integers
  raises on a zero divisor.
\<close>

fun update_bn_loop ::
  "('s, 'x) net \<Rightarrow> momenta \<Rightarrow> ('x tensor \<times> int tensor) list \<Rightarrow> nat
   \<Rightarrow> 's model_state \<times> ('s, 'x) forward_log
   \<Rightarrow> error + 's model_state \<times> ('s, 'x) forward_log" where
  "update_bn_loop net momenta [] num_samples w = Inr w"
| "update_bn_loop net momenta (batch # rest) num_samples w =
     (case next_parameter (fst w) of
        Inl e \<Rightarrow> Inl e
      | Inr p \<Rightarrow>
          let sample_input = fst batch;
              moved = tensor_to sample_input (device p);
              batch_size = size0 sample_input
          in if num_samples + batch_size = 0 then Inl ZeroDivisionError
             else
               let momentum = real batch_size / real (num_samples + batch_size);
                   st1 = fold (\<lambda>m. set_momentum m (Some momentum)) (map fst momenta) (fst w)
               in (case call_model net sample_input (st1, snd w) of
                     Inl e \<Rightarrow> Inl e
                   | Inr (w2, output) \<Rightarrow>
                       update_bn_loop net momenta rest (num_samples + batch_size) w2))"

definition update_bn ::
  "'x loader \<Rightarrow> ('s, 'x) net \<Rightarrow> 's model_state
   \<Rightarrow> error + 's model_state \<times> ('s, 'x) forward_log" where
  "update_bn loader net st =
     (case check_bn net of
        Inl e \<Rightarrow> Inl e
      | Inr flag \<Rightarrow>
          if \<not> flag then Inr (st, [])
          else
            let st1 = set_mode net True st
            in (case module_apply (reset_bn net) (modules net) st1 of
                  Inl e \<Rightarrow> Inl e
                | Inr st2 \<Rightarrow>
                    (case module_apply (get_momenta st2) (modules net) [] of
                       Inl e \<Rightarrow> Inl e
                     | Inr momenta \<Rightarrow>
                         (case update_bn_loop net momenta (batches loader) 0 (st2, []) of
                            Inl e \<Rightarrow> Inl e
                          | Inr (st3, calls) \<Rightarrow>
                              (case module_apply (set_momenta momenta) (modules net) st3 of
                                 Inl e \<Rightarrow> Inl e
                               | Inr st4 \<Rightarrow> Inr (st4, calls))))))"

section \<open>Regularizer, learning-rate schedule and optimizer\<close>

text \<open>
  \<open>l2_regularizer(weight_decay)\<close> returns the closure \<open>regularizer\<close>; the curried function
  is that closure. The loop adds \<open>torch.sqrt(torch.sum(p ** 2))\<close> for every parameter.
\<close>

definition l2_regularizer :: "real \<Rightarrow> 's model_state \<Rightarrow> real" where
  "l2_regularizer weight_decay model =
     (let l2 = fold (\<lambda>p l2. l2 + sqrt (sum_list (map (\<lambda>x. x ^ 2) (rows p))))
                 (parameters model) 0.0
      in 0.5 * weight_decay * l2)"

text \<open>
  \<open>cyclic_learning_rate(epoch, cycle, alpha_1, alpha_2)\<close> returns the closure \<open>schedule\<close>.
  \<open>epoch % cycle\<close> on Python integers takes the sign of the divisor, as \<open>mod\<close> on
  \<^typ>\<open>int\<close> does, and raises for \<open>cycle = 0\<close>; \<open>/\<close> is true division.
\<close>

definition cyclic_learning_rate :: "int \<Rightarrow> int \<Rightarrow> real \<Rightarrow> real \<Rightarrow> real \<Rightarrow> error + real" where
  "cyclic_learning_rate epoch cycle alpha_1 alpha_2 i =
     (if cycle = 0 then Inl ZeroDivisionError
      else
        let t = (real_of_int (epoch mod cycle) + i) / real_of_int cycle
        in Inr (if t < 0.5
                then alpha_1 * (1.0 - 2.0 * t) + alpha_2 * 2.0 * t
                else alpha_1 * (2.0 * t - 1.0) + alpha_2 * (2.0 - 2.0 * t)))"

text \<open>
  An optimizer: its parameter groups, its internal state, and its two methods, which are
  primitives of PyTorch. \<open>step\<close> reads the groups and the internal state and updates the
  model's parameters.
\<close>

record param_group =
  lr :: real

record ('s, 'o) optimizer =
  param_groups :: "param_group list"
  internal :: 'o
  zero_grad :: "'s model_state \<Rightarrow> 's model_state"
  step :: "param_group list \<Rightarrow> 'o \<Rightarrow> 's model_state \<Rightarrow> error + 'o \<times> 's model_state"

definition adjust_learning_rate :: "('s, 'o) optimizer \<Rightarrow> real \<Rightarrow> ('s, 'o) optimizer \<times> real" where
  "adjust_learning_rate optimizer new_lr =
     (optimizer\<lparr>param_groups := map (\<lambda>param_group. param_group\<lparr>lr := new_lr\<rparr>)
                                    (param_groups optimizer)\<rparr>,
      new_lr)"

section \<open>Train and evaluation loops\<close>

text \<open>\<open>argmax\<close> along the class dimension: the index of the first maximal score.\<close>

fun argmax :: "real list \<Rightarrow> nat" where
  "argmax [] = 0"
| "argmax (x # xs) = (if list_all (\<lambda>y. y \<le> x) xs then 0 else Suc (argmax xs))"

text \<open>
  \<open>pred = output.data.argmax(1, keepdim=True)\<close> and
  \<open>pred.eq(target.data.view_as(pred)).sum().item()\<close>: the number of samples whose predicted
  class is the target. PyTorch raises when a row has no class to take the maximum of, when
  \<open>target\<close> does not have one entry per row of \<open>pred\<close>, and when the two tensors are on
  different devices.
\<close>

definition count_correct :: "real list tensor \<Rightarrow> int tensor \<Rightarrow> error + nat" where
  "count_correct output target =
     (if [] \<in> set (rows output) then Inl RuntimeError
      else if size0 target \<noteq> size0 output then Inl RuntimeError
      else if device output \<noteq> device target then Inl RuntimeError
      else Inr (length (filter (\<lambda>(scores, t). int (argmax scores) = t)
                          (zip (rows output) (rows target)))))"

record metrics =
  loss :: real
  accuracy :: real

record test_metrics = metrics +
  nll :: real

text \<open>The variables a pass over the loader updates.\<close>

record ('s, 'x) pass =
  model_st :: "'s model_state"
  calls :: "('s, 'x) forward_log"
  loss_sum :: real
  correct :: real

record ('s, 'x, 'o) train_pass = "('s, 'x) pass" +
  optim :: "('s, 'o) optimizer"

record ('s, 'x) test_pass = "('s, 'x) pass" +
  nll_sum :: real

text \<open>
  \<open>if lr_schedule is not None: lr = lr_schedule(i / num_iters); adjust_learning_rate(optimizer, lr)\<close>
\<close>

definition apply_schedule ::
  "(real \<Rightarrow> error + real) option \<Rightarrow> nat \<Rightarrow> nat \<Rightarrow> ('s, 'o) optimizer
   \<Rightarrow> error + ('s, 'o) optimizer" where
  "apply_schedule lr_schedule i num_iters optimizer =
     (case lr_schedule of
        None \<Rightarrow> Inr optimizer
      | Some schedule \<Rightarrow>
          if num_iters = 0 then Inl ZeroDivisionError
          else (case schedule (real i / real num_iters) of
                  Inl e \<Rightarrow> Inl e
                | Inr new_lr \<Rightarrow> Inr (fst (adjust_learning_rate optimizer new_lr))))"

text \<open>
  One iteration of \<open>train\<close>. The source calls \<open>sample_input.to(device)\<close> and
  \<open>target.to(device)\<close> and drops their results (\<open>moved_input\<close>, \<open>moved_target\<close>): the
  forward pass, the criterion and the comparison get \<open>sample_input\<close> and \<open>target\<close>.
\<close>

definition train_batch ::
  "('s, 'x) net \<Rightarrow> (real list tensor \<Rightarrow> int tensor \<Rightarrow> error + real)
   \<Rightarrow> ('s model_state \<Rightarrow> real) option \<Rightarrow> (real \<Rightarrow> error + real) option \<Rightarrow> nat \<Rightarrow> nat
   \<Rightarrow> 'x tensor \<times> int tensor \<Rightarrow> ('s, 'x, 'o) train_pass \<Rightarrow> error + ('s, 'x, 'o) train_pass" where
  "train_batch net criterion regularizer lr_schedule num_iters i batch v =
     (let sample_input = fst batch; target = snd batch
      in (case apply_schedule lr_schedule i num_iters (optim v) of
            Inl e \<Rightarrow> Inl e
          | Inr optimizer \<Rightarrow>
          (case next_parameter (model_st v) of
            Inl e \<Rightarrow> Inl e
          | Inr p \<Rightarrow>
          let moved_input = tensor_to sample_input (device p);
              moved_target = tensor_to target (device p);
              st1 = zero_grad optimizer (model_st v)
          in (case call_model net sample_input (st1, calls v) of
            Inl e \<Rightarrow> Inl e
          | Inr ((st2, calls2), output) \<Rightarrow>
          (case criterion output target of
            Inl e \<Rightarrow> Inl e
          | Inr criterion_value \<Rightarrow>
          let loss_item = (case regularizer of
                             None \<Rightarrow> criterion_value
                           | Some reg \<Rightarrow> criterion_value + reg st2)
          in (case backward net loss_item st2 of
            Inl e \<Rightarrow> Inl e
          | Inr st3 \<Rightarrow>
          (case step optimizer (param_groups optimizer) (internal optimizer) st3 of
            Inl e \<Rightarrow> Inl e
          | Inr (internal', st4) \<Rightarrow>
          (case count_correct output target of
            Inl e \<Rightarrow> Inl e
          | Inr matches \<Rightarrow>
              Inr (v\<lparr>model_st := st4, calls := calls2,
                     loss_sum := loss_sum v + loss_item * real (size0 sample_input),
                     correct := correct v + real matches,
                     optim := optimizer\<lparr>internal := internal'\<rparr>\<rparr>)))))))))"

fun train_loop ::
  "('s, 'x) net \<Rightarrow> (real list tensor \<Rightarrow> int tensor \<Rightarrow> error + real)
   \<Rightarrow> ('s model_state \<Rightarrow> real) option \<Rightarrow> (real \<Rightarrow> error + real) option \<Rightarrow> nat \<Rightarrow> nat
   \<Rightarrow> ('x tensor \<times> int tensor) list \<Rightarrow> ('s, 'x, 'o) train_pass
   \<Rightarrow> error + ('s, 'x, 'o) train_pass" where
  "train_loop net criterion regularizer lr_schedule num_iters i [] v = Inr v"
| "train_loop net criterion regularizer lr_schedule num_iters i (batch # rest) v =
     (case train_batch net criterion regularizer lr_schedule num_iters i batch v of
        Inl e \<Rightarrow> Inl e
      | Inr v' \<Rightarrow> train_loop net criterion regularizer lr_schedule num_iters (Suc i) rest v')"

definition train ::
  "'x loader \<Rightarrow> ('s, 'x) net \<Rightarrow> ('s, 'o) optimizer
   \<Rightarrow> (real list tensor \<Rightarrow> int tensor \<Rightarrow> error + real)
   \<Rightarrow> ('s model_state \<Rightarrow> real) option \<Rightarrow> (real \<Rightarrow> error + real) option
   \<Rightarrow> 's model_state \<Rightarrow> error + metrics \<times> ('s, 'x, 'o) train_pass" where
  "train train_loader net optimizer criterion regularizer lr_schedule st =
     (let num_iters = length (batches train_loader)
      in (case train_loop net criterion regularizer lr_schedule num_iters 0
                 (batches train_loader)
                 \<lparr>model_st = set_mode net True st, calls = [], loss_sum = 0.0,
                  correct = 0.0, optim = optimizer\<rparr> of
            Inl e \<Rightarrow> Inl e
          | Inr v \<Rightarrow>
              if dataset_len train_loader = 0 then Inl ZeroDivisionError
              else Inr (\<lparr>loss = loss_sum v / real (dataset_len train_loader),
                         accuracy = correct v * 100.0 / real (dataset_len train_loader)\<rparr>,
                        v)))"

text \<open>
  \<open>new_train\<close>, the sibling of \<open>train\<close>: it looks the device up once, before the loop,
  and passes the moved tensors \<open>inputs.to(device)\<close> and \<open>labels.to(device)\<close> on.
\<close>

definition new_train_batch ::
  "('s, 'x) net \<Rightarrow> (real list tensor \<Rightarrow> int tensor \<Rightarrow> error + real)
   \<Rightarrow> ('s model_state \<Rightarrow> real) option \<Rightarrow> (real \<Rightarrow> error + real) option \<Rightarrow> device
   \<Rightarrow> nat \<Rightarrow> nat
   \<Rightarrow> 'x tensor \<times> int tensor \<Rightarrow> ('s, 'x, 'o) train_pass \<Rightarrow> error + ('s, 'x, 'o) train_pass" where
  "new_train_batch net criterion regularizer lr_schedule dev num_iters i data v =
     (let inputs = fst data; labels = snd data;
          st1 = zero_grad (optim v) (model_st v)
      in (case apply_schedule lr_schedule i num_iters (optim v) of
            Inl e \<Rightarrow> Inl e
          | Inr optimizer \<Rightarrow>
          (case call_model net (tensor_to inputs dev) (st1, calls v) of
            Inl e \<Rightarrow> Inl e
          | Inr ((st2, calls2), outputs) \<Rightarrow>
          (case criterion outputs (tensor_to labels dev) of
            Inl e \<Rightarrow> Inl e
          | Inr criterion_value \<Rightarrow>
          let loss_item = (case regularizer of
                             None \<Rightarrow> criterion_value
                           | Some reg \<Rightarrow> criterion_value + reg st2)
          in (case backward net loss_item st2 of
            Inl e \<Rightarrow> Inl e
          | Inr st3 \<Rightarrow>
          (case step optimizer (param_groups optimizer) (internal optimizer) st3 of
            Inl e \<Rightarrow> Inl e
          | Inr (internal', st4) \<Rightarrow>
          (case count_correct outputs (tensor_to labels dev) of
            Inl e \<Rightarrow> Inl e
          | Inr matches \<Rightarrow>
              Inr (v\<lparr>model_st := st4, calls := calls2,
                     loss_sum := loss_sum v + loss_item * real (size0 labels),
                     correct := correct v + real matches,
                     optim := optimizer\<lparr>internal := internal'\<rparr>\<rparr>))))))))"

fun new_train_loop ::
  "('s, 'x) net \<Rightarrow> (real list tensor \<Rightarrow> int tensor \<Rightarrow> error + real)
   \<Rightarrow> ('s model_state \<Rightarrow> real) option \<Rightarrow> (real \<Rightarrow> error + real) option \<Rightarrow> device
   \<Rightarrow> nat \<Rightarrow> nat
   \<Rightarrow> ('x tensor \<times> int tensor) list \<Rightarrow> ('s, 'x, 'o) train_pass
   \<Rightarrow> error + ('s, 'x, 'o) train_pass" where
  "new_train_loop net criterion regularizer lr_schedule dev num_iters i [] v = Inr v"
| "new_train_loop net criterion regularizer lr_schedule dev num_iters i (data # rest) v =
     (case new_train_batch net criterion regularizer lr_schedule dev num_iters i data v of
        Inl e \<Rightarrow> Inl e
      | Inr v' \<Rightarrow>
          new_train_loop net criterion regularizer lr_schedule dev num_iters (Suc i) rest v')"

definition new_train ::
  "'x loader \<Rightarrow> ('s, 'x) net \<Rightarrow> ('s, 'o) optimizer
   \<Rightarrow> (real list tensor \<Rightarrow> int tensor \<Rightarrow> error + real)
   \<Rightarrow> ('s model_state \<Rightarrow> real) option \<Rightarrow> (real \<Rightarrow> error + real) option
   \<Rightarrow> 's model_state \<Rightarrow> error + metrics \<times> ('s, 'x, 'o) train_pass" where
  "new_train train_loader net optimizer criterion regularizer lr_schedule st =
     (case next_parameter st of
        Inl e \<Rightarrow> Inl e
      | Inr p \<Rightarrow>
          let num_iters = length (batches train_loader)
          in (case new_train_loop net criterion regularizer lr_schedule (device p) num_iters 0
                     (batches train_loader)
                     \<lparr>model_st = set_mode net True st, calls = [], loss_sum = 0.0,
                      correct = 0.0, optim = optimizer\<rparr> of
                Inl e \<Rightarrow> Inl e
              | Inr v \<Rightarrow>
                  if dataset_len train_loader = 0 then Inl ZeroDivisionError
                  else Inr (\<lparr>loss = loss_sum v / real (dataset_len train_loader),
                             accuracy = correct v * 100.0 / real (dataset_len train_loader)\<rparr>,
                            v)))"

text \<open>
  One iteration of \<open>test\<close>; \<open>dev\<close> is the device looked up before the loop. As in
  \<open>train\<close>, the results of the two \<open>.to(device)\<close> calls are dropped.
\<close>

definition test_batch ::
  "('s, 'x) net \<Rightarrow> (real list tensor \<Rightarrow> int tensor \<Rightarrow> error + real)
   \<Rightarrow> ('s model_state \<Rightarrow> real) option \<Rightarrow> device
   \<Rightarrow> 'x tensor \<times> int tensor \<Rightarrow> ('s, 'x) test_pass \<Rightarrow> error + ('s, 'x) test_pass" where
  "test_batch net criterion regularizer dev batch v =
     (let sample_input = fst batch; target = snd batch;
          moved_input = tensor_to sample_input dev;
          moved_target = tensor_to target dev
      in (case call_model net sample_input (model_st v, calls v) of
            Inl e \<Rightarrow> Inl e
          | Inr ((st2, calls2), output) \<Rightarrow>
          (case criterion output target of
            Inl e \<Rightarrow> Inl e
          | Inr nll_item \<Rightarrow>
          let loss_item = (case regularizer of
                             None \<Rightarrow> nll_item
                           | Some reg \<Rightarrow> nll_item + reg st2)
          in (case count_correct output target of
            Inl e \<Rightarrow> Inl e
          | Inr matches \<Rightarrow>
              Inr (v\<lparr>model_st := st2, calls := calls2,
                     loss_sum := loss_sum v + loss_item * real (size0 sample_input),
                     correct := correct v + real matches,
                     nll_sum := nll_sum v + nll_item * real (size0 sample_input)\<rparr>)))))"

fun test_loop ::
  "('s, 'x) net \<Rightarrow> (real list tensor \<Rightarrow> int tensor \<Rightarrow> error + real)
   \<Rightarrow> ('s model_state \<Rightarrow> real) option \<Rightarrow> device
   \<Rightarrow> ('x tensor \<times> int tensor) list \<Rightarrow> ('s, 'x) test_pass \<Rightarrow> error + ('s, 'x) test_pass" where
  "test_loop net criterion regularizer dev [] v = Inr v"
| "test_loop net criterion regularizer dev (batch # rest) v =
     (case test_batch net criterion regularizer dev batch v of
        Inl e \<Rightarrow> Inl e
      | Inr v' \<Rightarrow> test_loop net criterion regularizer dev rest v')"

definition test ::
  "'x loader \<Rightarrow> ('s, 'x) net \<Rightarrow> (real list tensor \<Rightarrow> int tensor \<Rightarrow> error + real)
   \<Rightarrow> ('s model_state \<Rightarrow> real) option
   \<Rightarrow> 's model_state \<Rightarrow> error + test_metrics \<times> ('s, 'x) test_pass" where
  "test test_loader net criterion regularizer st =
     (let st0 = set_mode net False st
      in (case next_parameter st0 of
            Inl e \<Rightarrow> Inl e
          | Inr p \<Rightarrow>
          (case test_loop net criterion regularizer (device p) (batches test_loader)
                  \<lparr>model_st = st0, calls = [], loss_sum = 0.0, correct = 0.0,
                   nll_sum = 0.0\<rparr> of
            Inl e \<Rightarrow> Inl e
          | Inr v \<Rightarrow>
              if dataset_len test_loader = 0 then Inl ZeroDivisionError
              else Inr (\<lparr>loss = loss_sum v / real (dataset_len test_loader),
                         accuracy = correct v * 100.0 / real (dataset_len test_loader),
                         nll = nll_sum v / real (dataset_len test_loader)\<rparr>,
                        v))))"

text \<open>
  \<open>predictions\<close>. The call that would bind \<open>output\<close> is commented out in the source and
  the module has no global of that name, so the read of \<open>output\<close> in
  \<open>F.softmax(output, dim=1)\<close> raises; the two appends after it are never reached.
  \<open>np.vstack\<close> of an empty list raises.
\<close>

fun predictions_loop ::
  "('x tensor \<times> int tensor) list \<Rightarrow> 's model_state
   \<Rightarrow> real list list list \<times> int list list \<Rightarrow> error + real list list list \<times> int list list" where
  "predictions_loop [] st acc = Inr acc"
| "predictions_loop (batch # rest) st acc =
     (case next_parameter st of
        Inl e \<Rightarrow> Inl e
      | Inr p \<Rightarrow>
          let sample_input = fst batch; target = snd batch;
              moved_input = tensor_to sample_input (device p);
              moved_target = tensor_to target (device p)
          in Inl (NameError ''output''))"

definition predictions ::
  "'x loader \<Rightarrow> ('s, 'x) net \<Rightarrow> 's model_state \<Rightarrow> error + real list list \<times> int list" where
  "predictions test_loader net st =
     (case predictions_loop (batches test_loader) (set_mode net False st) ([], []) of
        Inl e \<Rightarrow> Inl e
      | Inr (preds, targets) \<Rightarrow>
          if preds = [] then Inl ValueError else Inr (concat preds, concat targets))"


section \<open>Specification-side definitions\<close>

text \<open>
  The momentum sequence of the replay as the specification words it: for each batch of
  size \<open>b\<close> the momentum is \<open>b / (num_samples_seen_so_far + b)\<close>, and
  \<open>num_samples_seen_so_far\<close> grows by \<open>b\<close> after the batch.
\<close>

fun replay_momenta :: "nat \<Rightarrow> nat list \<Rightarrow> real list" where
  "replay_momenta num_samples_seen_so_far [] = []"
| "replay_momenta num_samples_seen_so_far (b # bs) =
     real b / real (num_samples_seen_so_far + b)
       # replay_momenta (num_samples_seen_so_far + b) bs"


text \<open>The L2 norm \<open>||p||_2\<close> of a flattened parameter.\<close>

definition l2_norm :: "real list \<Rightarrow> real" where
  "l2_norm p = sqrt (\<Sum>x\<leftarrow>p. x\<^sup>2)"

text \<open>
  The state a pass leaves when nothing but the forward passes touches the model: the
  inputs are fed in order, each forward pass starting from the state the previous one left.
\<close>

fun forward_passes ::
  "('s, 'x) net \<Rightarrow> 'x tensor list \<Rightarrow> 's model_state \<Rightarrow> error + 's model_state" where
  "forward_passes net [] st = Inr st"
| "forward_passes net (x # xs) st =
     (case forward net st x of Inl e \<Rightarrow> Inl e | Inr (st', output) \<Rightarrow> forward_passes net xs st')"

text \<open>
  The per-batch loss value of the specification, for the forward call \<open>call\<close> (the state
  and the input the forward pass was given) and the batch's targets: the criterion's output
  plus the regularizer's value when a regularizer is supplied. \<open>batch_matches\<close> is the
  number of samples of the batch whose arg-max class is the target. \<open>pass_loss\<close> is \<open>S\<close>,
  the sum over the batches of the loss value times the batch size, and \<open>pass_matches\<close> is
  \<open>C\<close>, the total number of matches.
\<close>

definition batch_loss ::
  "('s, 'x) net \<Rightarrow> (real list tensor \<Rightarrow> int tensor \<Rightarrow> error + real)
   \<Rightarrow> ('s model_state \<Rightarrow> real) option \<Rightarrow> 's model_state \<times> 'x tensor \<Rightarrow> int tensor \<Rightarrow> real" where
  "batch_loss net criterion regularizer call target =
     (case forward net (fst call) (snd call) of
        Inl e \<Rightarrow> 0
      | Inr (st', output) \<Rightarrow>
          (case criterion output target of
             Inl e \<Rightarrow> 0
           | Inr criterion_value \<Rightarrow>
               criterion_value + (case regularizer of None \<Rightarrow> 0 | Some reg \<Rightarrow> reg st')))"

definition batch_matches ::
  "('s, 'x) net \<Rightarrow> 's model_state \<times> 'x tensor \<Rightarrow> int tensor \<Rightarrow> nat" where
  "batch_matches net call target =
     (case forward net (fst call) (snd call) of
        Inl e \<Rightarrow> 0
      | Inr (st', output) \<Rightarrow>
          length (filter (\<lambda>(scores, t). int (argmax scores) = t)
                    (zip (rows output) (rows target))))"

definition pass_loss ::
  "('s, 'x) net \<Rightarrow> (real list tensor \<Rightarrow> int tensor \<Rightarrow> error + real)
   \<Rightarrow> ('s model_state \<Rightarrow> real) option \<Rightarrow> ('s, 'x) forward_log
   \<Rightarrow> ('x tensor \<times> int tensor) list \<Rightarrow> real" where
  "pass_loss net criterion regularizer cs bs =
     (\<Sum>(call, batch)\<leftarrow>zip cs bs.
         batch_loss net criterion regularizer call (snd batch) * real (size0 (fst batch)))"

definition pass_matches ::
  "('s, 'x) net \<Rightarrow> ('s, 'x) forward_log \<Rightarrow> ('x tensor \<times> int tensor) list \<Rightarrow> nat" where
  "pass_matches net cs bs = (\<Sum>(call, batch)\<leftarrow>zip cs bs. batch_matches net call (snd batch))"

section \<open>Example instances\<close>

text \<open>
  A small model with two batch-normalization modules, one of each hierarchy, whose forward
  pass scores a sample \<open>v\<close> as \<open>[v, 1 - v]\<close>; a state with one parameter on the device
  \<open>d\<close> and momentum \<open>0.1\<close> everywhere; a loader of four batches of two samples.
\<close>

definition example_forward ::
  "nat model_state \<Rightarrow> real tensor \<Rightarrow> error + nat model_state \<times> real list tensor" where
  "example_forward st x =
     Inr (st, \<lparr>device = device x, rows = map (\<lambda>v. [v, 1 - v]) (rows x)\<rparr>)"

definition example_net :: "(nat, real) net" where
  "example_net =
     \<lparr>modules = [Module Torch_BatchNorm 0, Module Other_Module 1, Module Curves_BatchNorm 2],
      forward = example_forward,
      reset_running_stats = (\<lambda>s. 0),
      backward = (\<lambda>loss_item st. Inr st)\<rparr>"

definition example_state :: "device \<Rightarrow> nat model_state" where
  "example_state d =
     \<lparr>parameters = [\<lparr>device = d, rows = [3, 4], grad = None\<rparr>],
      attrs = (\<lambda>m. \<lparr>training = False, momentum = Some (1 / 10), running_stats = 7\<rparr>)\<rparr>"

definition example_batch :: "real tensor \<times> int tensor" where
  "example_batch = (\<lparr>device = CPU, rows = [1, 0]\<rparr>, \<lparr>device = CPU, rows = [0, 1]\<rparr>)"

definition example_loader :: "real loader" where
  "example_loader =
     \<lparr>batches = [example_batch, example_batch, example_batch, example_batch],
      dataset_len = 8\<rparr>"

text \<open>
  A criterion with the constant value \<open>0.5\<close>; an optimizer with one parameter group whose
  methods leave the model as it is; and a model whose forward pass raises, as PyTorch
  does, when its input is not on the device of the model's parameters, and otherwise
  returns its scores on that device.
\<close>

definition example_criterion :: "real list tensor \<Rightarrow> int tensor \<Rightarrow> error + real" where
  "example_criterion output target = Inr (1 / 2)"

definition example_optimizer :: "(nat, unit) optimizer" where
  "example_optimizer =
     \<lparr>param_groups = [\<lparr>lr = 1\<rparr>],
      internal = (),
      zero_grad = (\<lambda>st. st),
      step = (\<lambda>groups state st. Inr (state, st))\<rparr>"

definition strict_forward ::
  "nat model_state \<Rightarrow> real tensor \<Rightarrow> error + nat model_state \<times> real list tensor" where
  "strict_forward st x =
     (if list_ex (\<lambda>p. device p \<noteq> device x) (parameters st) then Inl RuntimeError
      else example_forward st x)"

definition strict_net :: "(nat, real) net" where
  "strict_net = example_net\<lparr>forward := strict_forward\<rparr>"


section \<open>Properties of the batch-normalization recalibration\<close>

lemma module_apply_check_bn:
  "module_apply check_bn_module ms flag = Inr (flag \<or> (\<exists>m\<in>set ms. isbatchnorm m))"
  by (induction ms arbitrary: flag) (auto simp: check_bn_module_def)

lemma check_bn_eq: "check_bn net = Inr (\<exists>m\<in>set (modules net). isbatchnorm m)"
  by (simp add: check_bn_def module_apply_check_bn)

lemma module_apply_reset_bn:
  "\<exists>st'. module_apply (reset_bn net) ms st = Inr st'
     \<and> parameters st' = parameters st
     \<and> (\<forall>m. momentum (attrs st' m) = momentum (attrs st m))"
proof (induction ms arbitrary: st)
  case Nil
  show ?case by simp
next
  case (Cons a ms)
  obtain st1 where st1: "reset_bn net a st = Inr st1"
    and keep: "parameters st1 = parameters st"
      "\<forall>m. momentum (attrs st1 m) = momentum (attrs st m)"
    by (simp add: reset_bn_def)
  from Cons.IH [of st1] st1 keep show ?case by auto
qed

lemma module_apply_get_momenta:
  "\<exists>momenta. module_apply (get_momenta st) ms acc = Inr momenta
     \<and> (\<forall>m. map_of momenta m =
           (if m \<in> set ms \<and> isbatchnorm m then Some (momentum (attrs st m)) else map_of acc m))
     \<and> fst ` set momenta = fst ` set acc \<union> {m \<in> set ms. isbatchnorm m}"
proof (induction ms arbitrary: acc)
  case Nil
  show ?case by simp
next
  case (Cons a ms)
  let ?acc1 = "if isbatchnorm a then AList.update a (momentum (attrs st a)) acc else acc"
  have a: "get_momenta st a acc = Inr ?acc1"
    by (simp add: get_momenta_def)
  from Cons.IH [of ?acc1] obtain momenta where
    m: "module_apply (get_momenta st) ms ?acc1 = Inr momenta"
      "\<forall>m. map_of momenta m =
           (if m \<in> set ms \<and> isbatchnorm m then Some (momentum (attrs st m)) else map_of ?acc1 m)"
      "fst ` set momenta = fst ` set ?acc1 \<union> {m \<in> set ms. isbatchnorm m}"
    by blast
  have "module_apply (get_momenta st) (a # ms) acc = Inr momenta"
    using a m(1) by simp
  moreover have "\<forall>m. map_of momenta m =
           (if m \<in> set (a # ms) \<and> isbatchnorm m then Some (momentum (attrs st m)) else map_of acc m)"
    using m(2) by (auto simp: update_conv')
  moreover have "fst ` set momenta = fst ` set acc \<union> {m \<in> set (a # ms). isbatchnorm m}"
    using m(3) by (auto simp: dom_update)
  ultimately show ?case by blast
qed

lemma fold_set_momentum:
  "momentum (attrs (fold (\<lambda>m. set_momentum m v) ks st) m)
     = (if m \<in> set ks then v else momentum (attrs st m))"
  by (induction ks arbitrary: st) (auto simp: set_momentum_def)

lemma fold_set_momentum_parameters:
  "parameters (fold (\<lambda>m. set_momentum m v) ks st) = parameters st"
  by (induction ks arbitrary: st) (auto simp: set_momentum_def)

lemma module_apply_set_momenta:
  "module_apply (set_momenta momenta) ms st = Inr st' \<Longrightarrow>
     momentum (attrs st' m) =
       (if m \<in> set ms \<and> isbatchnorm m then the (map_of momenta m) else momentum (attrs st m))"
  by (induction ms arbitrary: st)
     (auto simp: set_momenta_def set_momentum_def split: sum.splits if_splits option.splits)

lemma module_apply_set_momenta_total:
  "\<forall>m\<in>set ms. isbatchnorm m \<longrightarrow> map_of momenta m \<noteq> None \<Longrightarrow>
     \<exists>st'. module_apply (set_momenta momenta) ms st = Inr st'"
  by (induction ms arbitrary: st)
     (auto simp: set_momenta_def split: sum.splits if_splits option.splits)

lemma call_model_Inr:
  "call_model net x (st, cs) = Inr (w', outp) \<Longrightarrow>
     \<exists>st'. forward net st x = Inr (st', outp) \<and> w' = (st', cs @ [(st, x)])"
  by (auto simp: call_model_def split: sum.splits)

lemma update_bn_loop_calls:
  "update_bn_loop net momenta bs n (st, cs) = Inr (st', cs') \<Longrightarrow>
     \<exists>new. cs' = cs @ new \<and> map snd new = map fst bs \<and>
       (\<forall>m\<in>fst ` set momenta.
          map (\<lambda>c. momentum (attrs (fst c) m)) new
            = map Some (replay_momenta n (map (\<lambda>b. size0 (fst b)) bs)))"
proof (induction bs arbitrary: n st cs)
  case Nil
  then show ?case by simp
next
  case (Cons batch rest)
  let ?x = "fst batch"
  let ?b = "size0 ?x"
  let ?st1 = "fold (\<lambda>m. set_momentum m (Some (real ?b / real (n + ?b)))) (map fst momenta) st"
  from Cons.prems obtain w2 outp where
    call: "call_model net ?x (?st1, cs) = Inr (w2, outp)"
    and rest: "update_bn_loop net momenta rest (n + ?b) w2 = Inr (st', cs')"
    by (auto simp: Let_def split: sum.splits if_splits)
  from call_model_Inr [OF call] obtain st2 where
    w2: "w2 = (st2, cs @ [(?st1, ?x)])" by blast
  from Cons.IH [OF rest [unfolded w2]] obtain new where
    new: "cs' = (cs @ [(?st1, ?x)]) @ new" "map snd new = map fst rest"
      "\<forall>m\<in>fst ` set momenta.
          map (\<lambda>c. momentum (attrs (fst c) m)) new
            = map Some (replay_momenta (n + ?b) (map (\<lambda>b. size0 (fst b)) rest))"
    by blast
  have "\<forall>m\<in>fst ` set momenta. momentum (attrs ?st1 m) = Some (real ?b / real (n + ?b))"
    by (simp add: fold_set_momentum)
  with new show ?case
    by (intro exI [of _ "(?st1, ?x) # new"]) simp
qed

lemma update_bn_loop_total:
  assumes fwd: "\<forall>s x. parameters s \<noteq> [] \<longrightarrow>
                  (\<exists>s' outp. forward net s x = Inr (s', outp) \<and> parameters s' \<noteq> [])"
  shows "parameters st \<noteq> [] \<Longrightarrow> \<forall>b\<in>set bs. 0 < size0 (fst b) \<Longrightarrow>
           \<exists>w'. update_bn_loop net momenta bs n (st, cs) = Inr w'"
proof (induction bs arbitrary: n st cs)
  case Nil
  show ?case by simp
next
  case (Cons batch rest)
  let ?x = "fst batch"
  let ?b = "size0 ?x"
  let ?st1 = "fold (\<lambda>m. set_momentum m (Some (real ?b / real (n + ?b)))) (map fst momenta) st"
  from Cons.prems obtain p where p: "next_parameter st = Inr p"
    by (cases "parameters st") (auto simp: next_parameter_def)
  from Cons.prems have pos: "0 < ?b" by simp
  have "parameters ?st1 \<noteq> []"
    using Cons.prems by (simp add: fold_set_momentum_parameters)
  with fwd obtain st2 outp where
    st2: "forward net ?st1 ?x = Inr (st2, outp)" "parameters st2 \<noteq> []" by blast
  from Cons.IH [OF st2(2), of "n + ?b" "cs @ [(?st1, ?x)]"] Cons.prems obtain w' where
    "update_bn_loop net momenta rest (n + ?b) (st2, cs @ [(?st1, ?x)]) = Inr w'" by auto
  with p pos st2 show ?case
    by (simp add: call_model_def Let_def)
qed

text \<open>The stages of a run of \<open>update_bn\<close> that returns, on a model with batch normalization.\<close>

lemma update_bn_stages:
  assumes ret: "update_bn loader net st = Inr (st', cs)"
    and bn: "\<exists>m\<in>set (modules net). isbatchnorm m"
  obtains st2 momenta st3 where
    "module_apply (reset_bn net) (modules net) (set_mode net True st) = Inr st2"
    "module_apply (get_momenta st2) (modules net) [] = Inr momenta"
    "update_bn_loop net momenta (batches loader) 0 (st2, []) = Inr (st3, cs)"
    "module_apply (set_momenta momenta) (modules net) st3 = Inr st'"
  using ret bn
  by (auto simp: update_bn_def check_bn_eq Let_def split: sum.splits if_splits)

lemma update_bn_no_bn:
  "\<forall>m\<in>set (modules net). \<not> isbatchnorm m \<Longrightarrow> update_bn loader net st = Inr (st, [])"
  by (simp add: update_bn_def check_bn_eq)

lemma update_bn_total:
  assumes fwd: "\<forall>s x. parameters s \<noteq> [] \<longrightarrow>
                  (\<exists>s' outp. forward net s x = Inr (s', outp) \<and> parameters s' \<noteq> [])"
    and bs: "batches loader = [] \<or> parameters st \<noteq> [] \<and> (\<forall>b\<in>set (batches loader). 0 < size0 (fst b))"
  shows "\<exists>st' cs. update_bn loader net st = Inr (st', cs)"
proof (cases "\<exists>m\<in>set (modules net). isbatchnorm m")
  case False
  then show ?thesis by (simp add: update_bn_no_bn)
next
  case True
  obtain st2 where st2: "module_apply (reset_bn net) (modules net) (set_mode net True st) = Inr st2"
    and par: "parameters st2 = parameters (set_mode net True st)"
    using module_apply_reset_bn by blast
  obtain momenta where mo: "module_apply (get_momenta st2) (modules net) [] = Inr momenta"
    and lookup: "\<forall>m. map_of momenta m =
           (if m \<in> set (modules net) \<and> isbatchnorm m then Some (momentum (attrs st2 m)) else map_of [] m)"
    using module_apply_get_momenta by blast
  have "\<exists>w'. update_bn_loop net momenta (batches loader) 0 (st2, []) = Inr w'"
  proof (cases "batches loader = []")
    case True
    then show ?thesis by simp
  next
    case False
    with bs par have "parameters st2 \<noteq> []" "\<forall>b\<in>set (batches loader). 0 < size0 (fst b)"
      by (simp_all add: set_mode_def)
    then show ?thesis by (rule update_bn_loop_total [OF fwd])
  qed
  then obtain st3 cs where lp: "update_bn_loop net momenta (batches loader) 0 (st2, []) = Inr (st3, cs)"
    by fastforce
  from lookup have "\<forall>m\<in>set (modules net). isbatchnorm m \<longrightarrow> map_of momenta m \<noteq> None"
    by simp
  from module_apply_set_momenta_total [OF this] obtain st4 where
    "module_apply (set_momenta momenta) (modules net) st3 = Inr st4" by blast
  with True st2 mo lp show ?thesis
    by (simp add: update_bn_def check_bn_eq Let_def)
qed

lemma update_bn_calls:
  assumes ret: "update_bn loader net st = Inr (st', cs)"
    and m: "m \<in> set (modules net)" "isbatchnorm m"
  shows "map snd cs = map fst (batches loader)"
    and "map (\<lambda>c. momentum (attrs (fst c) m)) cs
           = map Some (replay_momenta 0 (map (\<lambda>b. size0 (fst b)) (batches loader)))"
proof -
  from m have bn: "\<exists>m\<in>set (modules net). isbatchnorm m" by blast
  from update_bn_stages [OF ret bn] obtain st2 momenta st3 where
    mo: "module_apply (get_momenta st2) (modules net) [] = Inr momenta"
    and lp: "update_bn_loop net momenta (batches loader) 0 (st2, []) = Inr (st3, cs)"
    by blast
  from module_apply_get_momenta [of st2 "modules net" "[]"] mo
  have keys: "fst ` set momenta = {m \<in> set (modules net). isbatchnorm m}" by auto
  from update_bn_loop_calls [OF lp] keys m
  show "map snd cs = map fst (batches loader)"
    and "map (\<lambda>c. momentum (attrs (fst c) m)) cs
           = map Some (replay_momenta 0 (map (\<lambda>b. size0 (fst b)) (batches loader)))"
    by auto
qed

lemma update_bn_momentum_restored:
  assumes ret: "update_bn loader net st = Inr (st', cs)"
    and m: "m \<in> set (modules net)" "isbatchnorm m"
  shows "momentum (attrs st' m) = momentum (attrs st m)"
proof -
  from m have bn: "\<exists>m\<in>set (modules net). isbatchnorm m" by blast
  from update_bn_stages [OF ret bn] obtain st2 momenta st3 where
    rs: "module_apply (reset_bn net) (modules net) (set_mode net True st) = Inr st2"
    and mo: "module_apply (get_momenta st2) (modules net) [] = Inr momenta"
    and sm: "module_apply (set_momenta momenta) (modules net) st3 = Inr st'"
    by blast
  from module_apply_reset_bn [of net "modules net" "set_mode net True st"] rs
  have "momentum (attrs st2 m) = momentum (attrs (set_mode net True st) m)" by auto
  then have st2: "momentum (attrs st2 m) = momentum (attrs st m)"
    by (simp add: set_mode_def)
  from module_apply_get_momenta [of st2 "modules net" "[]"] mo m
  have "map_of momenta m = Some (momentum (attrs st2 m))" by auto
  with module_apply_set_momenta [OF sm, of m] m st2 show ?thesis by simp
qed

text \<open>
  C1: in a run of \<open>update_bn\<close> that returns, the forward passes get the inputs of the
  batches in order, and at the forward pass of a batch of size \<open>b\<close> every
  batch-normalization module of the model has momentum \<open>b / (num_samples + b)\<close>, where
  \<open>num_samples\<close> is the total size of the batches before it; for four batches of size 2
  the values are 1, 1/2, 1/3, 1/4. The run returns when the forward pass never raises, the
  model has a parameter and no batch is empty.
\<close>

theorem update_bn_replay_momentum:
  "(\<forall>st' cs m. update_bn loader net st = Inr (st', cs) \<and> m \<in> set (modules net) \<and> isbatchnorm m
      \<longrightarrow> map snd cs = map fst (batches loader)
        \<and> map (\<lambda>c. momentum (attrs (fst c) m)) cs
            = map Some (replay_momenta 0 (map (\<lambda>b. size0 (fst b)) (batches loader))))
   \<and> replay_momenta 0 [2, 2, 2, 2] = [1, 1 / 2, 1 / 3, 1 / 4]
   \<and> ((\<forall>s x. parameters s \<noteq> [] \<longrightarrow>
              (\<exists>s' outp. forward net s x = Inr (s', outp) \<and> parameters s' \<noteq> []))
        \<and> parameters st \<noteq> [] \<and> (\<forall>b\<in>set (batches loader). 0 < size0 (fst b))
      \<longrightarrow> (\<exists>st' cs. update_bn loader net st = Inr (st', cs)))"
proof (intro conjI allI impI)
  fix st' cs m
  assume "update_bn loader net st = Inr (st', cs) \<and> m \<in> set (modules net) \<and> isbatchnorm m"
  then have ret: "update_bn loader net st = Inr (st', cs)"
    and m: "m \<in> set (modules net)" "isbatchnorm m" by simp_all
  show "map snd cs = map fst (batches loader)"
    by (rule update_bn_calls(1) [OF ret m])
  show "map (\<lambda>c. momentum (attrs (fst c) m)) cs
          = map Some (replay_momenta 0 (map (\<lambda>b. size0 (fst b)) (batches loader)))"
    by (rule update_bn_calls(2) [OF ret m])
next
  have "replay_momenta 0 [2, 2, 2, 2] = [2 / 2, 2 / 4, 2 / 6, 2 / 8]" by simp
  then show "replay_momenta 0 [2, 2, 2, 2] = [1, 1 / 2, 1 / 3, 1 / 4]" by simp
next
  assume "(\<forall>s x. parameters s \<noteq> [] \<longrightarrow>
              (\<exists>s' outp. forward net s x = Inr (s', outp) \<and> parameters s' \<noteq> []))
        \<and> parameters st \<noteq> [] \<and> (\<forall>b\<in>set (batches loader). 0 < size0 (fst b))"
  then show "\<exists>st' cs. update_bn loader net st = Inr (st', cs)"
    by (intro update_bn_total) simp_all
qed

lemma example_net_forward_total:
  "\<forall>s x. parameters s \<noteq> [] \<longrightarrow>
     (\<exists>s' outp. forward example_net s x = Inr (s', outp) \<and> parameters s' \<noteq> [])"
  by (simp add: example_net_def example_forward_def)

lemma example_loader_sizes:
  "map (\<lambda>b. size0 (fst b)) (batches example_loader) = [2, 2, 2, 2]"
  by (simp add: example_loader_def example_batch_def size0_def)

theorem update_bn_replay_momentum_witness:
  "\<exists>st' cs. update_bn example_loader example_net (example_state CPU) = Inr (st', cs)
     \<and> map (\<lambda>c. momentum (attrs (fst c) (Module Torch_BatchNorm 0))) cs
         = [Some 1, Some (1 / 2), Some (1 / 3), Some (1 / 4)]
     \<and> map (\<lambda>c. momentum (attrs (fst c) (Module Curves_BatchNorm 2))) cs
         = [Some 1, Some (1 / 2), Some (1 / 3), Some (1 / 4)]"
proof -
  note inst = update_bn_replay_momentum [of example_loader example_net "example_state CPU"]
  have pre: "parameters (example_state CPU) \<noteq> []"
    "\<forall>b\<in>set (batches example_loader). 0 < size0 (fst b)"
    by (simp_all add: example_state_def example_loader_def example_batch_def size0_def)
  with inst example_net_forward_total obtain st' cs where
    ret: "update_bn example_loader example_net (example_state CPU) = Inr (st', cs)"
    by blast
  have bn: "Module Torch_BatchNorm 0 \<in> set (modules example_net)"
    "isbatchnorm (Module Torch_BatchNorm 0)"
    "Module Curves_BatchNorm 2 \<in> set (modules example_net)"
    "isbatchnorm (Module Curves_BatchNorm 2)"
    by (simp_all add: example_net_def isbatchnorm_def)
  from inst ret bn have
    "map (\<lambda>c. momentum (attrs (fst c) (Module Torch_BatchNorm 0))) cs
       = map Some (replay_momenta 0 (map (\<lambda>b. size0 (fst b)) (batches example_loader)))"
    "map (\<lambda>c. momentum (attrs (fst c) (Module Curves_BatchNorm 2))) cs
       = map Some (replay_momenta 0 (map (\<lambda>b. size0 (fst b)) (batches example_loader)))"
    by blast+
  with inst ret show ?thesis
    unfolding example_loader_sizes by auto
qed

text \<open>
  C2: when \<open>update_bn\<close> returns, every batch-normalization module of the model has the
  momentum it had before the call, whatever the forward passes did; on a loader that
  yields no batch \<open>update_bn\<close> returns and runs no forward pass.
\<close>

theorem update_bn_restores_momentum:
  "(\<forall>st' cs m. update_bn loader net st = Inr (st', cs) \<and> m \<in> set (modules net) \<and> isbatchnorm m
      \<longrightarrow> momentum (attrs st' m) = momentum (attrs st m))
   \<and> (batches loader = [] \<longrightarrow> (\<exists>st'. update_bn loader net st = Inr (st', [])))"
proof (intro conjI allI impI)
  fix st' cs m
  assume "update_bn loader net st = Inr (st', cs) \<and> m \<in> set (modules net) \<and> isbatchnorm m"
  then show "momentum (attrs st' m) = momentum (attrs st m)"
    by (intro update_bn_momentum_restored [of loader net st st' cs m]) simp_all
next
  assume empty: "batches loader = []"
  show "\<exists>st'. update_bn loader net st = Inr (st', [])"
  proof (cases "\<exists>m\<in>set (modules net). isbatchnorm m")
    case False
    then show ?thesis by (simp add: update_bn_no_bn)
  next
    case True
    then obtain m where m: "m \<in> set (modules net)" "isbatchnorm m" by blast
    have "\<exists>st' cs. update_bn loader net st = Inr (st', cs)"
    proof -
      obtain st2 where st2:
        "module_apply (reset_bn net) (modules net) (set_mode net True st) = Inr st2"
        using module_apply_reset_bn by blast
      obtain momenta where mo: "module_apply (get_momenta st2) (modules net) [] = Inr momenta"
        and lookup: "\<forall>m. map_of momenta m =
           (if m \<in> set (modules net) \<and> isbatchnorm m then Some (momentum (attrs st2 m))
            else map_of [] m)"
        using module_apply_get_momenta by blast
      from lookup have "\<forall>m\<in>set (modules net). isbatchnorm m \<longrightarrow> map_of momenta m \<noteq> None"
        by simp
      from module_apply_set_momenta_total [OF this] obtain st4 where
        "module_apply (set_momenta momenta) (modules net) st2 = Inr st4" by blast
      with True st2 mo empty show ?thesis
        by (simp add: update_bn_def check_bn_eq Let_def)
    qed
    then obtain st' cs where ret: "update_bn loader net st = Inr (st', cs)" by blast
    from update_bn_calls(1) [OF ret m] empty have "cs = []" by simp
    with ret show ?thesis by blast
  qed
qed

theorem update_bn_restores_momentum_witness:
  "\<exists>st' cs. update_bn example_loader example_net (example_state CPU) = Inr (st', cs)
     \<and> momentum (attrs st' (Module Torch_BatchNorm 0)) = Some (1 / 10)
     \<and> momentum (attrs (fst (last cs)) (Module Torch_BatchNorm 0)) = Some (1 / 4)
     \<and> (\<exists>st''. update_bn (example_loader\<lparr>batches := []\<rparr>) example_net (example_state CPU)
                  = Inr (st'', [])
          \<and> momentum (attrs st'' (Module Torch_BatchNorm 0)) = Some (1 / 10))"
proof -
  have pre: "batches example_loader = [] \<or>
      parameters (example_state CPU) \<noteq> [] \<and> (\<forall>b\<in>set (batches example_loader). 0 < size0 (fst b))"
    by (simp add: example_state_def example_loader_def example_batch_def size0_def)
  from update_bn_total [OF example_net_forward_total pre] obtain st' cs where
    ret: "update_bn example_loader example_net (example_state CPU) = Inr (st', cs)"
    by blast
  have bn: "Module Torch_BatchNorm 0 \<in> set (modules example_net)"
    "isbatchnorm (Module Torch_BatchNorm 0)"
    by (simp_all add: example_net_def isbatchnorm_def)
  have before: "momentum (attrs (example_state CPU) (Module Torch_BatchNorm 0)) = Some (1 / 10)"
    by (simp add: example_state_def)
  from update_bn_restores_momentum [of example_loader example_net "example_state CPU"] ret bn before
  have restored: "momentum (attrs st' (Module Torch_BatchNorm 0)) = Some (1 / 10)"
    by auto
  from update_bn_calls(2) [OF ret bn]
  have seen: "map (\<lambda>c. momentum (attrs (fst c) (Module Torch_BatchNorm 0))) cs
      = [Some (2 / 2), Some (2 / 4), Some (2 / 6), Some (2 / 8)]"
    unfolding example_loader_sizes by simp
  then have "cs \<noteq> []" by auto
  from last_map [OF this, of "\<lambda>c. momentum (attrs (fst c) (Module Torch_BatchNorm 0))"] seen
  have during: "momentum (attrs (fst (last cs)) (Module Torch_BatchNorm 0)) = Some (1 / 4)"
    by simp
  from update_bn_restores_momentum
         [of "example_loader\<lparr>batches := []\<rparr>" example_net "example_state CPU"]
  obtain st'' where
    ret0: "update_bn (example_loader\<lparr>batches := []\<rparr>) example_net (example_state CPU) = Inr (st'', [])"
    by auto
  from update_bn_restores_momentum
         [of "example_loader\<lparr>batches := []\<rparr>" example_net "example_state CPU"] ret0 bn before
  have "momentum (attrs st'' (Module Torch_BatchNorm 0)) = Some (1 / 10)"
    by auto
  with ret restored during ret0 show ?thesis by blast
qed

text \<open>
  C3: on a model without batch-normalization modules \<open>update_bn\<close> returns the state it
  was given (parameters, running statistics, momenta and training flags) and has run no
  forward pass.
\<close>

theorem update_bn_no_batchnorm_noop:
  "\<forall>m\<in>set (modules net). \<not> isbatchnorm m \<Longrightarrow> update_bn loader net st = Inr (st, [])"
  by (rule update_bn_no_bn)

theorem update_bn_no_batchnorm_noop_witness:
  "update_bn example_loader (example_net\<lparr>modules := [Module Other_Module 1]\<rparr>) (example_state CPU)
     = Inr (example_state CPU, [])"
  by (rule update_bn_no_batchnorm_noop) (simp add: isbatchnorm_def)


section \<open>Properties of the regularizer and of the learning-rate schedule\<close>

lemma fold_add_sum_list:
  "fold (\<lambda>p (l2 :: real). l2 + f p) ps a = a + (\<Sum>p\<leftarrow>ps. f p)"
  by (induction ps arbitrary: a) simp_all

lemma l2_regularizer_eq:
  "l2_regularizer weight_decay model
     = 1 / 2 * weight_decay * (\<Sum>p\<leftarrow>parameters model. l2_norm (rows p))"
  by (simp add: l2_regularizer_def l2_norm_def fold_add_sum_list)

lemma sqrt25: "sqrt 25 = 5"
  using real_sqrt_abs [of 5] by simp

lemma cyclic_learning_rate_abs:
  "cycle \<noteq> 0 \<Longrightarrow>
     cyclic_learning_rate epoch cycle alpha_1 alpha_2 i =
       Inr (alpha_1 * \<bar>2 * ((real_of_int (epoch mod cycle) + i) / real_of_int cycle) - 1\<bar>
            + alpha_2 * (1 - \<bar>2 * ((real_of_int (epoch mod cycle) + i) / real_of_int cycle) - 1\<bar>))"
  by (simp add: cyclic_learning_rate_def Let_def abs_if algebra_simps)

lemma cyclic_learning_rate_continuous:
  "cycle \<noteq> 0 \<Longrightarrow>
     continuous_on UNIV (\<lambda>i. projr (cyclic_learning_rate epoch cycle alpha_1 alpha_2 i))"
  by (simp add: cyclic_learning_rate_abs) (intro continuous_intros; simp)

lemma cycle_position_range:
  assumes "0 < cycle" "0 \<le> i" "i < 1"
  shows "0 \<le> (real_of_int (epoch mod cycle) + i) / real_of_int cycle"
    and "(real_of_int (epoch mod cycle) + i) / real_of_int cycle < 1"
proof -
  from assms(1) have "0 \<le> epoch mod cycle" "epoch mod cycle + 1 \<le> cycle"
    by (simp_all add: add1_zle_eq)
  then have k: "0 \<le> real_of_int (epoch mod cycle)"
    "real_of_int (epoch mod cycle) + 1 \<le> real_of_int cycle"
    by linarith+
  from k assms show "0 \<le> (real_of_int (epoch mod cycle) + i) / real_of_int cycle"
    by simp
  from k assms show "(real_of_int (epoch mod cycle) + i) / real_of_int cycle < 1"
    by simp
qed

text \<open>
  C9: the regularizer is half the weight decay times the sum, over the model's parameters,
  of the L2 norm of each parameter (the norms are not squared: a parameter \<open>[3, 4]\<close>
  contributes 5); with weight decay 0 it is 0.
\<close>

theorem l2_regularizer_sum_of_norms:
  "l2_regularizer weight_decay model
     = 0.5 * weight_decay * (\<Sum>p\<leftarrow>parameters model. l2_norm (rows p))
   \<and> l2_regularizer 0 model = 0
   \<and> l2_regularizer 2 (example_state d) = 5"
  by (simp add: l2_regularizer_eq l2_norm_def sqrt25 example_state_def)

text \<open>
  C7: for a positive cycle and \<open>i\<close> in \<open>[0, 1)\<close>, with
  \<open>t = ((epoch mod cycle) + i) / cycle\<close>, which lies in \<open>[0, 1)\<close>, the schedule returns
  \<open>alpha_1 * (1 - 2t) + alpha_2 * 2t\<close> for \<open>t < 1/2\<close> and
  \<open>alpha_1 * (2t - 1) + alpha_2 * (2 - 2t)\<close> otherwise; both expressions are \<open>alpha_2\<close>
  at \<open>t = 1/2\<close>, and the schedule is a continuous function of \<open>i\<close>.
\<close>

theorem cyclic_learning_rate_triangular:
  assumes "0 < cycle" and "0 \<le> i" and "i < 1"
  shows "(let t = (real_of_int (epoch mod cycle) + i) / real_of_int cycle
          in 0 \<le> t \<and> t < 1
           \<and> cyclic_learning_rate epoch cycle alpha_1 alpha_2 i
               = Inr (if t < 1 / 2 then alpha_1 * (1 - 2 * t) + alpha_2 * (2 * t)
                      else alpha_1 * (2 * t - 1) + alpha_2 * (2 - 2 * t))
           \<and> (t = 1 / 2 \<longrightarrow> cyclic_learning_rate epoch cycle alpha_1 alpha_2 i = Inr alpha_2))
         \<and> alpha_1 * (1 - 2 * (1 / 2)) + alpha_2 * (2 * (1 / 2)) = alpha_2
         \<and> alpha_1 * (2 * (1 / 2) - 1) + alpha_2 * (2 - 2 * (1 / 2)) = alpha_2
         \<and> continuous_on UNIV (\<lambda>j. projr (cyclic_learning_rate epoch cycle alpha_1 alpha_2 j))"
proof -
  let ?t = "(real_of_int (epoch mod cycle) + i) / real_of_int cycle"
  from assms have nz: "cycle \<noteq> 0" by simp
  have range: "0 \<le> ?t" "?t < 1"
    using cycle_position_range [OF assms] by simp_all
  have val: "cyclic_learning_rate epoch cycle alpha_1 alpha_2 i
               = Inr (if ?t < 1 / 2 then alpha_1 * (1 - 2 * ?t) + alpha_2 * (2 * ?t)
                      else alpha_1 * (2 * ?t - 1) + alpha_2 * (2 - 2 * ?t))"
    using nz by (simp add: cyclic_learning_rate_def Let_def)
  have mid: "?t = 1 / 2 \<longrightarrow> cyclic_learning_rate epoch cycle alpha_1 alpha_2 i = Inr alpha_2"
  proof
    assume h: "?t = 1 / 2"
    show "cyclic_learning_rate epoch cycle alpha_1 alpha_2 i = Inr alpha_2"
      unfolding val h by simp
  qed
  have cont: "continuous_on UNIV (\<lambda>j. projr (cyclic_learning_rate epoch cycle alpha_1 alpha_2 j))"
    by (rule cyclic_learning_rate_continuous [OF nz])
  from range val mid cont show ?thesis
    unfolding Let_def by simp
qed

theorem cyclic_learning_rate_triangular_witness:
  "cyclic_learning_rate 3 2 1 5 0 = Inr 5
   \<and> cyclic_learning_rate 3 2 1 5 (1 / 2) = Inr 3
   \<and> continuous_on UNIV (\<lambda>j. projr (cyclic_learning_rate 3 2 1 5 j))"
  using cyclic_learning_rate_triangular [of 2 0 3 1 5]
    cyclic_learning_rate_triangular [of 2 "1 / 2" 3 1 5]
  by (simp add: Let_def)

text \<open>
  C8 as stated fails: in the second of four epochs of a cycle the schedule starts at the
  midpoint of the two bounds, not at \<open>alpha_1\<close>; and with \<open>alpha_1 > alpha_2\<close> its
  values exceed \<open>alpha_2\<close>.
\<close>

theorem cyclic_learning_rate_boundary_counterexample:
  "cyclic_learning_rate 1 4 0 1 0 = Inr (1 / 2)
   \<and> cyclic_learning_rate 1 4 0 1 0 \<noteq> Inr 0
   \<and> cyclic_learning_rate 0 1 1 0 0 = Inr 1
   \<and> \<not> projr (cyclic_learning_rate 0 1 1 0 0) \<le> 0"
  by (simp add: cyclic_learning_rate_def Let_def)

lemma cyclic_learning_rate_between:
  assumes "0 < cycle" "0 \<le> i" "i < 1" "alpha_1 \<le> alpha_2"
  shows "\<exists>v. cyclic_learning_rate epoch cycle alpha_1 alpha_2 i = Inr v
           \<and> alpha_1 \<le> v \<and> v \<le> alpha_2"
proof -
  let ?t = "(real_of_int (epoch mod cycle) + i) / real_of_int cycle"
  let ?w = "\<bar>2 * ?t - 1\<bar>"
  from assms have nz: "cycle \<noteq> 0" by simp
  have "\<And>t::real. 0 \<le> t \<Longrightarrow> t < 1 \<Longrightarrow> \<bar>2 * t - 1\<bar> \<le> 1" by arith
  from this [OF cycle_position_range [OF assms(1-3), of epoch]]
  have w1: "?w \<le> 1" .
  have w0: "0 \<le> ?w" by (rule abs_ge_zero)
  note w = w0 w1
  let ?v = "alpha_1 * ?w + alpha_2 * (1 - ?w)"
  have "0 \<le> (alpha_2 - alpha_1) * (1 - ?w)" "0 \<le> (alpha_2 - alpha_1) * ?w"
    using assms(4) w by (intro mult_nonneg_nonneg; simp)+
  then have "alpha_1 \<le> ?v" "?v \<le> alpha_2"
    by (simp_all add: algebra_simps)
  with cyclic_learning_rate_abs [OF nz, of epoch alpha_1 alpha_2 i] show ?thesis
    by blast
qed

lemma cyclic_learning_rate_end_of_cycle:
  assumes "0 < cycle" "epoch mod cycle = cycle - 1"
  shows "((\<lambda>\<epsilon>. projr (cyclic_learning_rate epoch cycle alpha_1 alpha_2 (1 - \<epsilon>)))
            \<longlongrightarrow> alpha_1) (at_right 0)"
proof -
  let ?f = "\<lambda>j. projr (cyclic_learning_rate epoch cycle alpha_1 alpha_2 j)"
  from assms have nz: "cycle \<noteq> 0" by simp
  have "(real_of_int (epoch mod cycle) + 1) / real_of_int cycle = 1"
    using assms by simp
  then have at1: "?f 1 = alpha_1"
    by (simp add: cyclic_learning_rate_abs [OF nz])
  have "((\<lambda>\<epsilon>::real. 1 - \<epsilon>) \<longlongrightarrow> 1 - 0) (at_right 0)"
    by (intro tendsto_intros)
  then have g: "((\<lambda>\<epsilon>::real. 1 - \<epsilon>) \<longlongrightarrow> 1) (at_right 0)" by simp
  have "((\<lambda>\<epsilon>. ?f (1 - \<epsilon>)) \<longlongrightarrow> ?f 1) (at_right 0)"
    by (rule continuous_on_tendsto_compose
              [OF cyclic_learning_rate_continuous [OF nz] g]) simp_all
  with at1 show ?thesis by simp
qed

text \<open>
  C8, amended: for a positive cycle, the schedule of the first epoch of a cycle
  (\<open>epoch mod cycle = 0\<close>) starts at \<open>alpha_1\<close>; the schedule of the last epoch of a
  cycle (\<open>epoch mod cycle = cycle - 1\<close>) tends to \<open>alpha_1\<close> as \<open>i\<close> tends to 1 from below;
  when \<open>alpha_1 \<le> alpha_2\<close> every value for \<open>i\<close> in \<open>[0, 1)\<close> lies between \<open>alpha_1\<close>
  and \<open>alpha_2\<close>; and the value is \<open>alpha_2\<close> at every \<open>i\<close> with \<open>t = 1/2\<close>.
\<close>

theorem cyclic_learning_rate_cycle_bounds:
  assumes "0 < cycle"
  shows "(epoch mod cycle = 0 \<longrightarrow> cyclic_learning_rate epoch cycle alpha_1 alpha_2 0 = Inr alpha_1)
       \<and> (epoch mod cycle = cycle - 1 \<longrightarrow>
            ((\<lambda>\<epsilon>. projr (cyclic_learning_rate epoch cycle alpha_1 alpha_2 (1 - \<epsilon>)))
               \<longlongrightarrow> alpha_1) (at_right 0))
       \<and> (\<forall>i. 0 \<le> i \<and> i < 1 \<and> alpha_1 \<le> alpha_2 \<longrightarrow>
            (\<exists>v. cyclic_learning_rate epoch cycle alpha_1 alpha_2 i = Inr v
                 \<and> alpha_1 \<le> v \<and> v \<le> alpha_2))
       \<and> (\<forall>i. (real_of_int (epoch mod cycle) + i) / real_of_int cycle = 1 / 2 \<longrightarrow>
            cyclic_learning_rate epoch cycle alpha_1 alpha_2 i = Inr alpha_2)"
proof -
  from assms have nz: "cycle \<noteq> 0" by simp
  have start: "epoch mod cycle = 0 \<longrightarrow>
      cyclic_learning_rate epoch cycle alpha_1 alpha_2 0 = Inr alpha_1"
    using nz by (simp add: cyclic_learning_rate_def)
  have finish: "epoch mod cycle = cycle - 1 \<longrightarrow>
      ((\<lambda>\<epsilon>. projr (cyclic_learning_rate epoch cycle alpha_1 alpha_2 (1 - \<epsilon>)))
         \<longlongrightarrow> alpha_1) (at_right 0)"
    using cyclic_learning_rate_end_of_cycle [OF assms] by blast
  have between: "\<forall>i. 0 \<le> i \<and> i < 1 \<and> alpha_1 \<le> alpha_2 \<longrightarrow>
      (\<exists>v. cyclic_learning_rate epoch cycle alpha_1 alpha_2 i = Inr v
           \<and> alpha_1 \<le> v \<and> v \<le> alpha_2)"
    using cyclic_learning_rate_between [OF assms] by blast
  have peak: "\<forall>i. (real_of_int (epoch mod cycle) + i) / real_of_int cycle = 1 / 2 \<longrightarrow>
      cyclic_learning_rate epoch cycle alpha_1 alpha_2 i = Inr alpha_2"
  proof (intro allI impI)
    fix i :: real
    assume h: "(real_of_int (epoch mod cycle) + i) / real_of_int cycle = 1 / 2"
    show "cyclic_learning_rate epoch cycle alpha_1 alpha_2 i = Inr alpha_2"
      unfolding cyclic_learning_rate_abs [OF nz] h by simp
  qed
  from start finish between peak show ?thesis by blast
qed

theorem cyclic_learning_rate_cycle_bounds_witness:
  "cyclic_learning_rate 0 1 1 5 0 = Inr 1
   \<and> ((\<lambda>\<epsilon>. projr (cyclic_learning_rate 0 1 1 5 (1 - \<epsilon>))) \<longlongrightarrow> 1) (at_right 0)
   \<and> (\<exists>v. cyclic_learning_rate 0 1 1 5 (1 / 4) = Inr v \<and> 1 \<le> v \<and> v \<le> 5)
   \<and> cyclic_learning_rate 0 1 1 5 (1 / 2) = Inr 5"
proof -
  note inst = cyclic_learning_rate_cycle_bounds [of 1 0 1 5]
  from inst have "cyclic_learning_rate 0 1 1 5 0 = Inr 1" by simp
  moreover from inst
  have "((\<lambda>\<epsilon>. projr (cyclic_learning_rate 0 1 1 5 (1 - \<epsilon>))) \<longlongrightarrow> 1) (at_right 0)"
    by simp
  moreover from inst
  have "\<exists>v. cyclic_learning_rate 0 1 1 5 (1 / 4) = Inr v \<and> 1 \<le> v \<and> v \<le> 5"
    by simp
  moreover from inst have "cyclic_learning_rate 0 1 1 5 (1 / 2) = Inr 5"
    by simp
  ultimately show ?thesis by blast
qed


section \<open>Properties of the train loop\<close>

lemma count_correct_Inr:
  "count_correct outp target = Inr n \<Longrightarrow>
     n = length (filter (\<lambda>(scores, t). int (argmax scores) = t) (zip (rows outp) (rows target)))"
  by (auto simp: count_correct_def split: if_splits)

lemma train_batch_Inr:
  assumes "train_batch net criterion regularizer lr_schedule num_iters i batch v = Inr v'"
  shows "\<exists>st1. calls v' = calls v @ [(st1, fst batch)]
     \<and> loss_sum v' = loss_sum v
          + batch_loss net criterion regularizer (st1, fst batch) (snd batch)
            * real (size0 (fst batch))
     \<and> correct v' = correct v + real (batch_matches net (st1, fst batch) (snd batch))"
proof -
  let ?body = "train_batch net criterion regularizer lr_schedule num_iters i batch v"
  obtain optimizer where sch: "apply_schedule lr_schedule i num_iters (optim v) = Inr optimizer"
    using assms by (cases "apply_schedule lr_schedule i num_iters (optim v)")
                   (simp_all add: train_batch_def Let_def)
  obtain p where par: "next_parameter (model_st v) = Inr p"
    using assms sch by (cases "next_parameter (model_st v)")
                       (simp_all add: train_batch_def Let_def)
  let ?st1 = "zero_grad optimizer (model_st v)"
  obtain st2 outp where fw: "forward net ?st1 (fst batch) = Inr (st2, outp)"
    using assms sch par by (cases "forward net ?st1 (fst batch)")
                           (auto simp: train_batch_def call_model_def Let_def)
  obtain val where cr: "criterion outp (snd batch) = Inr val"
    using assms sch par fw by (cases "criterion outp (snd batch)")
                              (simp_all add: train_batch_def call_model_def Let_def)
  let ?loss = "case regularizer of None \<Rightarrow> val | Some reg \<Rightarrow> val + reg st2"
  obtain st3 where bw: "backward net ?loss st2 = Inr st3"
    using assms sch par fw cr by (cases "backward net ?loss st2")
                                 (simp_all add: train_batch_def call_model_def Let_def)
  obtain internal' st4 where
    sp: "step optimizer (param_groups optimizer) (internal optimizer) st3 = Inr (internal', st4)"
    using assms sch par fw cr bw
    by (cases "step optimizer (param_groups optimizer) (internal optimizer) st3")
       (auto simp: train_batch_def call_model_def Let_def)
  obtain n where cc: "count_correct outp (snd batch) = Inr n"
    using assms sch par fw cr bw sp by (cases "count_correct outp (snd batch)")
                                       (simp_all add: train_batch_def call_model_def Let_def)
  have v': "v' = v\<lparr>model_st := st4, calls := calls v @ [(?st1, fst batch)],
                    loss_sum := loss_sum v + ?loss * real (size0 (fst batch)),
                    correct := correct v + real n,
                    optim := optimizer\<lparr>internal := internal'\<rparr>\<rparr>"
    using assms sch par fw cr bw sp cc
    by (simp add: train_batch_def call_model_def Let_def)
  have cs: "calls v' = calls v @ [(?st1, fst batch)]"
    and ls: "loss_sum v' = loss_sum v + ?loss * real (size0 (fst batch))"
    and co: "correct v' = correct v + real n"
    unfolding v' by simp_all
  have "(case regularizer of None \<Rightarrow> val | Some reg \<Rightarrow> val + reg st2)
          = val + (case regularizer of None \<Rightarrow> 0 | Some reg \<Rightarrow> reg st2)"
    by (cases regularizer) simp_all
  with fw cr cs ls co count_correct_Inr [OF cc] show ?thesis
    by (intro exI [of _ "zero_grad optimizer (model_st v)"])
       (simp add: batch_loss_def batch_matches_def)
qed

lemma train_loop_Inr:
  "train_loop net criterion regularizer lr_schedule num_iters i bs v = Inr v' \<Longrightarrow>
     \<exists>new. calls v' = calls v @ new \<and> map snd new = map fst bs
       \<and> loss_sum v' = loss_sum v + pass_loss net criterion regularizer new bs
       \<and> correct v' = correct v + real (pass_matches net new bs)"
proof (induction bs arbitrary: i v)
  case Nil
  then show ?case by (simp add: pass_loss_def pass_matches_def)
next
  case (Cons batch rest)
  from Cons.prems obtain v1 where
    b: "train_batch net criterion regularizer lr_schedule num_iters i batch v = Inr v1"
    and r: "train_loop net criterion regularizer lr_schedule num_iters (Suc i) rest v1 = Inr v'"
    by (auto split: sum.splits)
  from train_batch_Inr [OF b] obtain st1 where
    one: "calls v1 = calls v @ [(st1, fst batch)]"
      "loss_sum v1 = loss_sum v
          + batch_loss net criterion regularizer (st1, fst batch) (snd batch)
            * real (size0 (fst batch))"
      "correct v1 = correct v + real (batch_matches net (st1, fst batch) (snd batch))"
    by blast
  from Cons.IH [OF r] obtain new where
    more: "calls v' = calls v1 @ new" "map snd new = map fst rest"
      "loss_sum v' = loss_sum v1 + pass_loss net criterion regularizer new rest"
      "correct v' = correct v1 + real (pass_matches net new rest)"
    by blast
  from one more show ?case
    by (intro exI [of _ "(st1, fst batch) # new"])
       (simp add: pass_loss_def pass_matches_def)
qed

lemma train_Inr:
  assumes "train loader net optimizer criterion regularizer lr_schedule st = Inr (r, v)"
  shows "0 < dataset_len loader"
    and "map snd (calls v) = map fst (batches loader)"
    and "loss r = pass_loss net criterion regularizer (calls v) (batches loader)
                    / real (dataset_len loader)"
    and "accuracy r = 100 * real (pass_matches net (calls v) (batches loader))
                        / real (dataset_len loader)"
proof -
  let ?v0 = "\<lparr>model_st = set_mode net True st, calls = [], loss_sum = 0.0,
              correct = 0.0, optim = optimizer\<rparr>"
  from assms have n: "0 < dataset_len loader"
    and lp: "train_loop net criterion regularizer lr_schedule (length (batches loader)) 0
               (batches loader) ?v0 = Inr v"
    and r: "r = \<lparr>loss = loss_sum v / real (dataset_len loader),
                 accuracy = correct v * 100.0 / real (dataset_len loader)\<rparr>"
    by (auto simp: train_def Let_def split: sum.splits if_splits)
  from train_loop_Inr [OF lp] have
    "map snd (calls v) = map fst (batches loader)"
    "loss_sum v = pass_loss net criterion regularizer (calls v) (batches loader)"
    "correct v = real (pass_matches net (calls v) (batches loader))"
    by auto
  with n r show "0 < dataset_len loader"
    and "map snd (calls v) = map fst (batches loader)"
    and "loss r = pass_loss net criterion regularizer (calls v) (batches loader)
                    / real (dataset_len loader)"
    and "accuracy r = 100 * real (pass_matches net (calls v) (batches loader))
                        / real (dataset_len loader)"
    by simp_all
qed

text \<open>
  C6: when \<open>train\<close> returns, the dataset is not empty, the forward passes got the inputs
  of the batches in order, and the metrics are exactly \<open>loss = S / N\<close> and
  \<open>accuracy = 100 * C / N\<close>, with \<open>N\<close> the size of the dataset, \<open>S\<close> the sum over the
  batches of the loss value (criterion output plus regularizer value) times the batch
  size, and \<open>C\<close> the number of samples whose arg-max class is the target. It returns
  whenever the dataset is not empty and the pass over the batches raised nothing.
\<close>

theorem train_metrics:
  "(\<forall>r v. train loader net optimizer criterion regularizer lr_schedule st = Inr (r, v) \<longrightarrow>
       0 < dataset_len loader
     \<and> map snd (calls v) = map fst (batches loader)
     \<and> r = \<lparr>loss = pass_loss net criterion regularizer (calls v) (batches loader)
                     / real (dataset_len loader),
              accuracy = 100 * real (pass_matches net (calls v) (batches loader))
                     / real (dataset_len loader)\<rparr>)
   \<and> (\<forall>v. 0 < dataset_len loader
          \<and> train_loop net criterion regularizer lr_schedule (length (batches loader)) 0
               (batches loader)
               \<lparr>model_st = set_mode net True st, calls = [], loss_sum = 0.0,
                correct = 0.0, optim = optimizer\<rparr> = Inr v
        \<longrightarrow> (\<exists>r. train loader net optimizer criterion regularizer lr_schedule st = Inr (r, v)))"
proof (intro conjI allI impI)
  fix r v
  assume ret: "train loader net optimizer criterion regularizer lr_schedule st = Inr (r, v)"
  show "0 < dataset_len loader"
    by (rule train_Inr(1) [OF ret])
  show "map snd (calls v) = map fst (batches loader)"
    by (rule train_Inr(2) [OF ret])
  show "r = \<lparr>loss = pass_loss net criterion regularizer (calls v) (batches loader)
                     / real (dataset_len loader),
             accuracy = 100 * real (pass_matches net (calls v) (batches loader))
                     / real (dataset_len loader)\<rparr>"
    using train_Inr(3,4) [OF ret] by simp
next
  fix v
  assume "0 < dataset_len loader
          \<and> train_loop net criterion regularizer lr_schedule (length (batches loader)) 0
               (batches loader)
               \<lparr>model_st = set_mode net True st, calls = [], loss_sum = 0.0,
                correct = 0.0, optim = optimizer\<rparr> = Inr v"
  then show "\<exists>r. train loader net optimizer criterion regularizer lr_schedule st = Inr (r, v)"
    by (simp add: train_def Let_def)
qed

lemmas example_defs =
  example_net_def example_forward_def example_state_def example_batch_def example_loader_def
  example_criterion_def example_optimizer_def

lemma example_train_run:
  "\<exists>r v. train example_loader example_net example_optimizer example_criterion
            (Some (l2_regularizer 2)) (Some (cyclic_learning_rate 0 1 (1 / 10) (1 / 100)))
            (example_state CPU) = Inr (r, v)
     \<and> calls v = replicate 4 (set_mode example_net True (example_state CPU), fst example_batch)"
  by (simp add: train_def train_batch_def apply_schedule_def adjust_learning_rate_def
        call_model_def next_parameter_def count_correct_def set_mode_def tensor_to_def
        size0_def cyclic_learning_rate_def example_defs Let_def numeral_eq_Suc)

theorem train_metrics_witness:
  "\<exists>r v. train example_loader example_net example_optimizer example_criterion
            (Some (l2_regularizer 2)) (Some (cyclic_learning_rate 0 1 (1 / 10) (1 / 100)))
            (example_state CPU) = Inr (r, v)
     \<and> loss r = 11 / 2 \<and> accuracy r = 100"
proof -
  let ?st0 = "set_mode example_net True (example_state CPU)"
  from example_train_run obtain r v where
    ret: "train example_loader example_net example_optimizer example_criterion
            (Some (l2_regularizer 2)) (Some (cyclic_learning_rate 0 1 (1 / 10) (1 / 100)))
            (example_state CPU) = Inr (r, v)"
    and cs: "calls v = replicate 4 (?st0, fst example_batch)"
    by blast
  have s: "pass_loss example_net example_criterion (Some (l2_regularizer 2)) (calls v)
             (batches example_loader) = 44"
    unfolding cs
    by (simp add: pass_loss_def batch_loss_def l2_regularizer_def set_mode_def size0_def
          sqrt25 example_defs numeral_eq_Suc)
  have c: "pass_matches example_net (calls v) (batches example_loader) = 8"
    unfolding cs
    by (simp add: pass_matches_def batch_matches_def set_mode_def example_defs numeral_eq_Suc)
  have n: "dataset_len example_loader = 8"
    by (simp add: example_loader_def)
  from train_metrics [of example_loader example_net example_optimizer example_criterion
                         "Some (l2_regularizer 2)"
                         "Some (cyclic_learning_rate 0 1 (1 / 10) (1 / 100))" "example_state CPU"]
    ret
  have "r = \<lparr>loss = pass_loss example_net example_criterion (Some (l2_regularizer 2)) (calls v)
                      (batches example_loader) / real (dataset_len example_loader),
             accuracy = 100 * real (pass_matches example_net (calls v) (batches example_loader))
                      / real (dataset_len example_loader)\<rparr>"
    by blast
  then have "loss r = 11 / 2" "accuracy r = 100"
    unfolding s c n by simp_all
  with ret show ?thesis by blast
qed


section \<open>Properties of the evaluation loop and of the device placement\<close>

lemma test_batch_Inr:
  assumes "test_batch net criterion regularizer dev batch v = Inr v'"
  shows "\<exists>outp. forward net (model_st v) (fst batch) = Inr (model_st v', outp)
           \<and> calls v' = calls v @ [(model_st v, fst batch)]"
proof -
  obtain st2 outp where fw: "forward net (model_st v) (fst batch) = Inr (st2, outp)"
    using assms by (cases "forward net (model_st v) (fst batch)")
                   (auto simp: test_batch_def call_model_def Let_def)
  obtain val where cr: "criterion outp (snd batch) = Inr val"
    using assms fw by (cases "criterion outp (snd batch)")
                      (simp_all add: test_batch_def call_model_def Let_def)
  obtain n where cc: "count_correct outp (snd batch) = Inr n"
    using assms fw cr by (cases "count_correct outp (snd batch)")
                         (simp_all add: test_batch_def call_model_def Let_def)
  from assms fw cr cc have "model_st v' = st2" "calls v' = calls v @ [(model_st v, fst batch)]"
    by (auto simp: test_batch_def call_model_def Let_def)
  with fw show ?thesis by simp
qed

lemma test_loop_Inr:
  "test_loop net criterion regularizer dev bs v = Inr v' \<Longrightarrow>
     forward_passes net (map fst bs) (model_st v) = Inr (model_st v')
     \<and> (\<exists>new. calls v' = calls v @ new \<and> map snd new = map fst bs)"
proof (induction bs arbitrary: v)
  case Nil
  then show ?case by simp
next
  case (Cons batch rest)
  from Cons.prems obtain v1 where
    b: "test_batch net criterion regularizer dev batch v = Inr v1"
    and r: "test_loop net criterion regularizer dev rest v1 = Inr v'"
    by (auto split: sum.splits)
  from test_batch_Inr [OF b] obtain outp where
    one: "forward net (model_st v) (fst batch) = Inr (model_st v1, outp)"
      "calls v1 = calls v @ [(model_st v, fst batch)]"
    by blast
  from Cons.IH [OF r] obtain new where
    more: "forward_passes net (map fst rest) (model_st v1) = Inr (model_st v')"
      "calls v' = calls v1 @ new" "map snd new = map fst rest"
    by blast
  from one more show ?case
    by (auto intro: exI [of _ "(model_st v, fst batch) # new"])
qed

lemma test_loop_frame:
  assumes frame: "\<forall>s x s' outp. forward net s x = Inr (s', outp) \<longrightarrow>
                    parameters s' = parameters s
                    \<and> (\<forall>m. training (attrs s' m) = training (attrs s m))"
  shows "test_loop net criterion regularizer dev bs v = Inr v' \<Longrightarrow>
     parameters (model_st v') = parameters (model_st v)
     \<and> (\<forall>m. training (attrs (model_st v') m) = training (attrs (model_st v) m))
     \<and> (\<forall>c\<in>set (calls v'). c \<in> set (calls v)
            \<or> parameters (fst c) = parameters (model_st v)
              \<and> (\<forall>m. training (attrs (fst c) m) = training (attrs (model_st v) m)))"
proof (induction bs arbitrary: v)
  case Nil
  then show ?case by simp
next
  case (Cons batch rest)
  from Cons.prems obtain v1 where
    b: "test_batch net criterion regularizer dev batch v = Inr v1"
    and r: "test_loop net criterion regularizer dev rest v1 = Inr v'"
    by (auto split: sum.splits)
  from test_batch_Inr [OF b] obtain outp where
    one: "forward net (model_st v) (fst batch) = Inr (model_st v1, outp)"
      "calls v1 = calls v @ [(model_st v, fst batch)]"
    by blast
  from frame one(1) have keep:
    "parameters (model_st v1) = parameters (model_st v)"
    "\<forall>m. training (attrs (model_st v1) m) = training (attrs (model_st v) m)"
    by blast+
  from Cons.IH [OF r] keep one(2) show ?case
    by auto
qed

text \<open>
  C4: when \<open>test\<close> returns, the state it leaves is the state in evaluation mode passed
  through the forward passes of the batches and through nothing else: \<open>test\<close> calls no
  backward pass and no optimizer. So, when the forward pass itself leaves the parameters
  (values and gradients) and the training flags alone, the parameters on return are those
  before the call, every forward pass saw them, and every module of the model is in
  evaluation mode on return and at every forward pass.
\<close>

theorem test_changes_only_by_forward:
  "\<forall>r v. test loader net criterion regularizer st = Inr (r, v) \<longrightarrow>
       forward_passes net (map fst (batches loader)) (set_mode net False st) = Inr (model_st v)
     \<and> map snd (calls v) = map fst (batches loader)
     \<and> ((\<forall>s x s' outp. forward net s x = Inr (s', outp) \<longrightarrow>
              parameters s' = parameters s
              \<and> (\<forall>m. training (attrs s' m) = training (attrs s m)))
        \<longrightarrow> parameters (model_st v) = parameters st
          \<and> (\<forall>m\<in>set (modules net). \<not> training (attrs (model_st v) m))
          \<and> (\<forall>c\<in>set (calls v). parameters (fst c) = parameters st
                \<and> (\<forall>m\<in>set (modules net). \<not> training (attrs (fst c) m))))"
proof (intro allI impI)
  fix r v
  assume ret: "test loader net criterion regularizer st = Inr (r, v)"
  let ?st0 = "set_mode net False st"
  let ?v0 = "\<lparr>model_st = ?st0, calls = [], loss_sum = 0.0, correct = 0.0, nll_sum = 0.0\<rparr>"
  from ret obtain p :: parameter where
    lp: "test_loop net criterion regularizer (device p) (batches loader) ?v0 = Inr v"
    by (auto simp: test_def Let_def split: sum.splits if_splits)
  have st0: "parameters ?st0 = parameters st"
    "\<forall>m\<in>set (modules net). \<not> training (attrs ?st0 m)"
    by (simp_all add: set_mode_def)
  from test_loop_Inr [OF lp] have
    fp: "forward_passes net (map fst (batches loader)) ?st0 = Inr (model_st v)"
    and cs: "map snd (calls v) = map fst (batches loader)"
    by auto
  have fr: "parameters (model_st v) = parameters st
          \<and> (\<forall>m\<in>set (modules net). \<not> training (attrs (model_st v) m))
          \<and> (\<forall>c\<in>set (calls v). parameters (fst c) = parameters st
                \<and> (\<forall>m\<in>set (modules net). \<not> training (attrs (fst c) m)))"
    if frame: "\<forall>s x s' outp. forward net s x = Inr (s', outp) \<longrightarrow>
                 parameters s' = parameters s
                 \<and> (\<forall>m. training (attrs s' m) = training (attrs s m))"
    using test_loop_frame [OF frame lp] st0 by simp
  from fp cs fr
  show "forward_passes net (map fst (batches loader)) ?st0 = Inr (model_st v)
     \<and> map snd (calls v) = map fst (batches loader)
     \<and> ((\<forall>s x s' outp. forward net s x = Inr (s', outp) \<longrightarrow>
              parameters s' = parameters s
              \<and> (\<forall>m. training (attrs s' m) = training (attrs s m)))
        \<longrightarrow> parameters (model_st v) = parameters st
          \<and> (\<forall>m\<in>set (modules net). \<not> training (attrs (model_st v) m))
          \<and> (\<forall>c\<in>set (calls v). parameters (fst c) = parameters st
                \<and> (\<forall>m\<in>set (modules net). \<not> training (attrs (fst c) m))))"
    by blast
qed

lemma example_test_run:
  "\<exists>r v. test example_loader example_net example_criterion (Some (l2_regularizer 2))
            (set_mode example_net True (example_state CPU)) = Inr (r, v)"
  by (simp add: test_def test_batch_def call_model_def next_parameter_def count_correct_def
        set_mode_def tensor_to_def size0_def example_defs Let_def)

theorem test_changes_only_by_forward_witness:
  "\<exists>r v. test example_loader example_net example_criterion (Some (l2_regularizer 2))
            (set_mode example_net True (example_state CPU)) = Inr (r, v)
     \<and> training (attrs (set_mode example_net True (example_state CPU)) (Module Torch_BatchNorm 0))
     \<and> \<not> training (attrs (model_st v) (Module Torch_BatchNorm 0))
     \<and> parameters (model_st v) = parameters (example_state CPU)
     \<and> length (calls v) = 4"
proof -
  let ?st = "set_mode example_net True (example_state CPU)"
  from example_test_run obtain r v where
    ret: "test example_loader example_net example_criterion (Some (l2_regularizer 2)) ?st
            = Inr (r, v)"
    by blast
  have frame: "\<forall>s x s' outp. forward example_net s x = Inr (s', outp) \<longrightarrow>
      parameters s' = parameters s \<and> (\<forall>m. training (attrs s' m) = training (attrs s m))"
    by (auto simp: example_net_def example_forward_def)
  have bn: "Module Torch_BatchNorm 0 \<in> set (modules example_net)"
    by (simp add: example_net_def)
  from test_changes_only_by_forward
         [of example_loader example_net example_criterion "Some (l2_regularizer 2)" ?st]
    ret frame
  have "map snd (calls v) = map fst (batches example_loader)"
    and "parameters (model_st v) = parameters ?st"
    and "\<forall>m\<in>set (modules example_net). \<not> training (attrs (model_st v) m)"
    by blast+
  with bn have "length (calls v) = 4"
    and "parameters (model_st v) = parameters (example_state CPU)"
    and "\<not> training (attrs (model_st v) (Module Torch_BatchNorm 0))"
    by (auto simp: set_mode_def example_loader_def dest: arg_cong [where f = length])
  moreover have "training (attrs ?st (Module Torch_BatchNorm 0))"
    by (simp add: set_mode_def example_net_def)
  ultimately show ?thesis using ret by blast
qed

text \<open>
  C5 fails on the code: \<open>train\<close> drops the results of the two \<open>.to(device)\<close> calls. With
  the model's parameter on CUDA and the batches on the CPU, a forward pass that checks the
  device of its input raises in \<open>train\<close>, while \<open>new_train\<close> passes CUDA tensors and
  returns; and a forward pass that accepts any input is given the CPU tensors by \<open>train\<close>.
\<close>

theorem train_forward_gets_unmoved_input:
  "train example_loader strict_net example_optimizer example_criterion None None
       (example_state CUDA) = Inl RuntimeError
   \<and> (\<exists>r v. new_train example_loader strict_net example_optimizer example_criterion None None
               (example_state CUDA) = Inr (r, v)
          \<and> map (\<lambda>c. device (snd c)) (calls v) = [CUDA, CUDA, CUDA, CUDA])
   \<and> (\<exists>r v. train example_loader example_net example_optimizer example_criterion None None
               (example_state CUDA) = Inr (r, v)
          \<and> map device (parameters (model_st v)) = [CUDA]
          \<and> map (\<lambda>c. device (snd c)) (calls v) = [CPU, CPU, CPU, CPU])"
proof (intro conjI)
  show "train example_loader strict_net example_optimizer example_criterion None None
          (example_state CUDA) = Inl RuntimeError"
    by (simp add: train_def train_batch_def apply_schedule_def call_model_def
          next_parameter_def set_mode_def tensor_to_def strict_net_def strict_forward_def
          example_defs Let_def)
  show "\<exists>r v. new_train example_loader strict_net example_optimizer example_criterion None None
               (example_state CUDA) = Inr (r, v)
          \<and> map (\<lambda>c. device (snd c)) (calls v) = [CUDA, CUDA, CUDA, CUDA]"
    by (simp add: new_train_def new_train_batch_def apply_schedule_def call_model_def
          next_parameter_def count_correct_def set_mode_def tensor_to_def size0_def
          strict_net_def strict_forward_def example_defs Let_def)
  show "\<exists>r v. train example_loader example_net example_optimizer example_criterion None None
               (example_state CUDA) = Inr (r, v)
          \<and> map device (parameters (model_st v)) = [CUDA]
          \<and> map (\<lambda>c. device (snd c)) (calls v) = [CPU, CPU, CPU, CPU]"
    by (simp add: train_def train_batch_def apply_schedule_def call_model_def
          next_parameter_def count_correct_def set_mode_def tensor_to_def size0_def
          example_defs Let_def)
qed

section \<open>Properties of \<open>predictions\<close>\<close>

lemma predictions_nonempty:
  assumes "batches loader \<noteq> []"
  shows "predictions loader net st =
           (if parameters st = [] then Inl StopIteration else Inl (NameError ''output''))"
proof -
  from assms obtain batch rest where bs: "batches loader = batch # rest"
    by (cases "batches loader") auto
  show ?thesis
    by (cases "parameters st")
       (simp_all add: predictions_def bs next_parameter_def set_mode_def Let_def)
qed

text \<open>
  C10, amended: on a loader that yields at least one batch, \<open>predictions\<close> raises the
  unbound-name error for \<open>output\<close> on the first batch when the model has a parameter, and
  \<open>StopIteration\<close> from the device lookup before it when the model has none; it never
  returns a result.
\<close>

theorem predictions_never_returns:
  assumes "batches loader \<noteq> []"
  shows "(parameters st \<noteq> [] \<longrightarrow> predictions loader net st = Inl (NameError ''output''))
       \<and> (parameters st = [] \<longrightarrow> predictions loader net st = Inl StopIteration)
       \<and> (\<forall>result. predictions loader net st \<noteq> Inr result)"
  by (simp add: predictions_nonempty [OF assms])

theorem predictions_never_returns_witness:
  "predictions example_loader example_net (example_state CPU) = Inl (NameError ''output'')
   \<and> predictions example_loader example_net ((example_state CPU)\<lparr>parameters := []\<rparr>)
       = Inl StopIteration"
  using predictions_never_returns [of example_loader "example_state CPU" example_net]
    predictions_never_returns
      [of example_loader "(example_state CPU)\<lparr>parameters := []\<rparr>" example_net]
  by (simp add: example_loader_def example_state_def)

text \<open>
  C10 as stated fails for a model without parameters: \<open>next(model.parameters())\<close> raises
  \<open>StopIteration\<close> before \<open>output\<close> is read.
\<close>

theorem predictions_no_parameters_counterexample:
  "predictions example_loader example_net ((example_state CPU)\<lparr>parameters := []\<rparr>)
     = Inl StopIteration
   \<and> predictions example_loader example_net ((example_state CPU)\<lparr>parameters := []\<rparr>)
     \<noteq> Inl (NameError ''output'')"
  by (simp add: predictions_def next_parameter_def set_mode_def example_loader_def
        example_state_def)

end
